theory Spec2Isabelle
  imports Main
begin

section \<open>LifeLens: the Core ML model export script\<close>

text \<open>
  The script \<^verbatim>\<open>LifeLens/ML/Models/create_coreml_models.py\<close> defines seven functions. Each of
  them describes a small Keras network, compiles it, converts it with coremltools, sets
  three metadata attributes on the converted model, saves it under \<^verbatim>\<open>CoreMLModels/\<close> and
  prints a line. The module body creates the directory, and, run as the main program,
  calls the seven functions one after the other.

  Everything that does real work lives outside the repository (Keras, coremltools, the
  operating system). Those calls are parameters of the model: an environment says how each
  call ends (it returns a value, raises, or does not return) and how it changes the hidden
  state of the libraries. The script itself is embedded as written: straight-line code in
  which a call that raises or does not return ends the run.
\<close>

subsection \<open>Arguments the script passes to the libraries\<close>

text \<open>A decimal literal of the source, \<open>(m, d)\<close> standing for \<open>m / 10 ^ d\<close>: \<^verbatim>\<open>0.5\<close> is \<open>(5, 1)\<close>.\<close>

type_synonym decimal = "int \<times> nat"

text \<open>
  The layer constructors of \<^verbatim>\<open>keras.layers\<close> with the arguments the script gives them. A
  keyword argument that some calls leave out is an option, so that no default of Keras is
  written into the model.
\<close>

datatype layer =
    Input "nat list" string
  | Reshape "nat list"
  | Conv1D nat nat string "string option"
  | MaxPooling1D nat
  | GlobalMaxPooling1D
  | Dense nat string "string option"
  | Dropout decimal
  | BatchNormalization
  | LSTM nat "bool option"
  | Flatten

text \<open>\<^verbatim>\<open>ct.TensorType(shape=..., name=...)\<close>; the outputs are given a name only.\<close>

datatype tensor_type = TensorType "nat list option" string

text \<open>
  Members of the enumerations \<^verbatim>\<open>ct.target\<close> and \<^verbatim>\<open>ct.ComputeUnit\<close> of coremltools; the
  script names one of each.
\<close>

datatype target = iOS13 | iOS14 | iOS15 | iOS16 | iOS17

datatype compute_unit = ComputeUnit_ALL | CPU_AND_GPU | CPU_ONLY | CPU_AND_NE

text \<open>
  The converted model as the script sees it: the three attributes it assigns, and the
  rest, which only the library looks into.
\<close>

record 'm mlmodel =
  core :: 'm
  author :: string
  short_description :: string
  version :: string

subsection \<open>Outcomes, the world and the history of calls\<close>

datatype error = OSError string | Exception string

text \<open>How a call ends: with a value, with an exception, or not at all.\<close>

datatype 'a reply = Returns 'a | Raises error | Hangs

datatype 'm node = Dir | ModelFile "'m mlmodel" | Other

datatype ('k, 'm) request =
    Invoke string
  | Import string
  | Makedirs string bool
  | Sequential "layer list"
  | Compile 'k string string
  | Convert 'k "tensor_type list" "tensor_type list" target compute_unit
  | Save "'m mlmodel" string
  | Print string

datatype outcome = Ok | Err error | NoReturn

text \<open>
  The world the script runs in: the file system (relative paths, as the script uses them),
  the lines written to standard output, the hidden state of the libraries (layer name
  counters, random number generators, caches), and a history variable. The history holds
  every call the script makes, of a library (\<open>Import\<close> to \<open>Print\<close>) and of one of its own
  functions (\<open>Invoke\<close>, with the name of the function), each entered when it ends, with the
  way it ended. The history is not read by the script nor by the environment.
\<close>

record ('k, 'm, 'l) world =
  files :: "string \<Rightarrow> 'm node option"
  stdout :: "string list"
  lib :: 'l
  trace :: "(('k, 'm) request \<times> outcome) list"

text \<open>
  The environment. The library calls see and change the library state only; the
  environment decides whether \<^verbatim>\<open>mkdir\<close>, \<^verbatim>\<open>save\<close> and \<^verbatim>\<open>print\<close> fail, and what they do
  when they succeed is fixed below: \<^verbatim>\<open>mkdir\<close> and \<^verbatim>\<open>save\<close> write the path they are given and no
  other, \<^verbatim>\<open>print\<close> adds its line to the output, and a call that fails leaves the file system
  and the output as they were. \<open>Sequential_reply\<close> stands for the whole expression
  \<^verbatim>\<open>keras.Sequential([...])\<close>, the construction of the layers included, and
  \<open>convert_reply\<close> for the whole expression \<^verbatim>\<open>ct.convert(...)\<close>.
\<close>

record ('k, 'm, 'l) env =
  import_reply :: "string \<Rightarrow> 'l \<Rightarrow> unit reply \<times> 'l"
  mkdir_reply :: "string \<Rightarrow> (string \<Rightarrow> 'm node option) \<Rightarrow> unit reply"
  Sequential_reply :: "layer list \<Rightarrow> 'l \<Rightarrow> 'k reply \<times> 'l"
  compile_reply :: "'k \<Rightarrow> string \<Rightarrow> string \<Rightarrow> 'l \<Rightarrow> unit reply \<times> 'l"
  convert_reply :: "'k \<Rightarrow> tensor_type list \<Rightarrow> tensor_type list \<Rightarrow> target \<Rightarrow> compute_unit
                      \<Rightarrow> 'l \<Rightarrow> 'm mlmodel reply \<times> 'l"
  save_reply :: "'m mlmodel \<Rightarrow> string \<Rightarrow> (string \<Rightarrow> 'm node option) \<Rightarrow> 'l \<Rightarrow> unit reply"
  print_reply :: "string \<Rightarrow> string list \<Rightarrow> unit reply"

type_synonym ('a, 'k, 'm, 'l) exec = "('k, 'm, 'l) world \<Rightarrow> 'a reply \<times> ('k, 'm, 'l) world"

fun outcome_of :: "'a reply \<Rightarrow> outcome" where
  "outcome_of (Returns a) = Ok"
| "outcome_of (Raises e) = Err e"
| "outcome_of Hangs = NoReturn"

fun returned :: "'a reply \<Rightarrow> bool" where
  "returned (Returns a) = True"
| "returned (Raises e) = False"
| "returned Hangs = False"

text \<open>Sequencing of statements: the next statement runs only if this one returned.\<close>

definition pbind :: "('a, 'k, 'm, 'l) exec \<Rightarrow> ('a \<Rightarrow> ('b, 'k, 'm, 'l) exec) \<Rightarrow> ('b, 'k, 'm, 'l) exec" where
  "pbind m f w =
     (case m w of
        (Returns a, w') \<Rightarrow> f a w'
      | (Raises e, w') \<Rightarrow> (Raises e, w')
      | (Hangs, w') \<Rightarrow> (Hangs, w'))"

definition preturn :: "'a \<Rightarrow> ('a, 'k, 'm, 'l) exec" where
  "preturn a w = (Returns a, w)"

text \<open>A call: it is run, then entered in the history.\<close>

definition recorded :: "('k, 'm) request \<Rightarrow> ('a, 'k, 'm, 'l) exec \<Rightarrow> ('a, 'k, 'm, 'l) exec" where
  "recorded req f w =
     (case f w of (r, w') \<Rightarrow> (r, w'\<lparr>trace := trace w' @ [(req, outcome_of r)]\<rparr>))"

subsection \<open>The calls\<close>

definition import_module :: "('k, 'm, 'l) env \<Rightarrow> string \<Rightarrow> (unit, 'k, 'm, 'l) exec" where
  "import_module env name =
     recorded (Import name)
       (\<lambda>w. case import_reply env name (lib w) of (r, l) \<Rightarrow> (r, w\<lparr>lib := l\<rparr>))"

definition isdir :: "('k, 'm, 'l) world \<Rightarrow> string \<Rightarrow> bool" where
  "isdir w name = (files w name = Some Dir)"

text \<open>
  \<^verbatim>\<open>os.mkdir(name)\<close>: on a name that exists the operating system refuses with an
  \<^verbatim>\<open>OSError\<close>; otherwise the environment says whether the call fails, and on success the
  directory is there.
\<close>

definition os_mkdir :: "('k, 'm, 'l) env \<Rightarrow> string \<Rightarrow> (unit, 'k, 'm, 'l) exec" where
  "os_mkdir env name w =
     (if files w name \<noteq> None then (Raises (OSError ''File exists''), w)
      else (case mkdir_reply env name (files w) of
              Returns u \<Rightarrow> (Returns u, w\<lparr>files := (files w)(name \<mapsto> Dir)\<rparr>)
            | Raises e \<Rightarrow> (Raises e, w)
            | Hangs \<Rightarrow> (Hangs, w)))"

text \<open>
  \<^verbatim>\<open>os.makedirs(name, exist_ok=...)\<close> of the Python standard library, for a name of one
  component (no separator: there is no parent to create first), which is how the script
  calls it:
  \<^verbatim>\<open>
    try:
        mkdir(name, mode)
    except OSError:
        if not exist_ok or not path.isdir(name):
            raise
  \<close>
\<close>

definition os_makedirs :: "('k, 'm, 'l) env \<Rightarrow> string \<Rightarrow> bool \<Rightarrow> (unit, 'k, 'm, 'l) exec" where
  "os_makedirs env name exist_ok =
     recorded (Makedirs name exist_ok)
       (\<lambda>w. case os_mkdir env name w of
               (Raises (OSError s), w') \<Rightarrow>
                 (if \<not> exist_ok \<or> \<not> isdir w' name then (Raises (OSError s), w')
                  else (Returns (), w'))
             | (r, w') \<Rightarrow> (r, w'))"

definition keras_Sequential :: "('k, 'm, 'l) env \<Rightarrow> layer list \<Rightarrow> ('k, 'k, 'm, 'l) exec" where
  "keras_Sequential env layers =
     recorded (Sequential layers)
       (\<lambda>w. case Sequential_reply env layers (lib w) of (r, l) \<Rightarrow> (r, w\<lparr>lib := l\<rparr>))"

definition model_compile :: "('k, 'm, 'l) env \<Rightarrow> 'k \<Rightarrow> string \<Rightarrow> string \<Rightarrow> (unit, 'k, 'm, 'l) exec" where
  "model_compile env model optimizer loss =
     recorded (Compile model optimizer loss)
       (\<lambda>w. case compile_reply env model optimizer loss (lib w) of (r, l) \<Rightarrow> (r, w\<lparr>lib := l\<rparr>))"

definition ct_convert :: "('k, 'm, 'l) env \<Rightarrow> 'k \<Rightarrow> tensor_type list \<Rightarrow> tensor_type list \<Rightarrow> target
    \<Rightarrow> compute_unit \<Rightarrow> ('m mlmodel, 'k, 'm, 'l) exec" where
  "ct_convert env model inputs outputs minimum_deployment_target compute_units =
     recorded (Convert model inputs outputs minimum_deployment_target compute_units)
       (\<lambda>w. case convert_reply env model inputs outputs minimum_deployment_target compute_units
                    (lib w) of
               (r, l) \<Rightarrow> (r, w\<lparr>lib := l\<rparr>))"

text \<open>
  \<^verbatim>\<open>coreml_model.save(path)\<close>: the environment says whether the call fails; on success the
  model, with the attributes it has at that moment, is the file at that path.
\<close>

definition mlmodel_save :: "('k, 'm, 'l) env \<Rightarrow> 'm mlmodel \<Rightarrow> string \<Rightarrow> (unit, 'k, 'm, 'l) exec" where
  "mlmodel_save env coreml_model path =
     recorded (Save coreml_model path)
       (\<lambda>w. case save_reply env coreml_model path (files w) (lib w) of
               Returns u \<Rightarrow> (Returns u, w\<lparr>files := (files w)(path \<mapsto> ModelFile coreml_model)\<rparr>)
             | Raises e \<Rightarrow> (Raises e, w)
             | Hangs \<Rightarrow> (Hangs, w))"

definition print :: "('k, 'm, 'l) env \<Rightarrow> string \<Rightarrow> (unit, 'k, 'm, 'l) exec" where
  "print env line =
     recorded (Print line)
       (\<lambda>w. case print_reply env line (stdout w) of
               Returns u \<Rightarrow> (Returns u, w\<lparr>stdout := stdout w @ [line]\<rparr>)
             | Raises e \<Rightarrow> (Raises e, w)
             | Hangs \<Rightarrow> (Hangs, w))"

subsection \<open>String constants\<close>

text \<open>
  Python strings are modelled by their UTF-8 bytes. The source has three characters
  outside ASCII: the check mark U+2705, the folder U+1F4C1 and the plus-minus sign U+00B1.
\<close>

definition check_mark :: string where
  "check_mark = [CHR 0xE2, CHR 0x9C, CHR 0x85]"

definition folder_mark :: string where
  "folder_mark = [CHR 0xF0, CHR 0x9F, CHR 0x93, CHR 0x81]"

definition plus_minus :: string where
  "plus_minus = [CHR 0xC2, CHR 0xB1]"

subsection \<open>The seven functions\<close>

text \<open>
  Each function is the source's sequence of statements. \<^verbatim>\<open>model.compile\<close> and the three
  attribute assignments update an object in place; the compiled model lives in the library
  state, and the converted model is local to the function until it is returned, so the
  assignments are record updates.
\<close>

definition arrhythmia_layers :: "layer list" where
  "arrhythmia_layers =
     [Input [1000] ''ecg_signal'',
      Reshape [1000, 1],
      Conv1D 64 5 ''relu'' (Some ''same''),
      MaxPooling1D 2,
      Conv1D 128 5 ''relu'' (Some ''same''),
      MaxPooling1D 2,
      Conv1D 256 3 ''relu'' (Some ''same''),
      GlobalMaxPooling1D,
      Dense 128 ''relu'' None,
      Dropout (5, 1),
      Dense 64 ''relu'' None,
      Dense 4 ''softmax'' (Some ''arrhythmia_class'')]"

definition create_arrhythmia_detection_model ::
    "('k, 'm, 'l) env \<Rightarrow> ('m mlmodel, 'k, 'm, 'l) exec" where
  "create_arrhythmia_detection_model env =
     recorded (Invoke ''create_arrhythmia_detection_model'') (
     pbind (keras_Sequential env arrhythmia_layers) (\<lambda>model.
     pbind (model_compile env model ''adam'' ''categorical_crossentropy'') (\<lambda>_.
     pbind (ct_convert env model
              [TensorType (Some [1, 1000]) ''ecg_signal'']
              [TensorType None ''arrhythmia_probability'']
              iOS15 ComputeUnit_ALL) (\<lambda>coreml_model.
     let coreml_model = coreml_model\<lparr>author := ''LifeLens Medical AI''\<rparr>;
         coreml_model = coreml_model\<lparr>short_description :=
                          ''ECG Arrhythmia Detection (AFib, VTach, PVCs)''\<rparr>;
         coreml_model = coreml_model\<lparr>version := ''1.0.0''\<rparr>
     in
     pbind (mlmodel_save env coreml_model ''CoreMLModels/ECG_Arrhythmia.mlmodel'') (\<lambda>_.
     pbind (print env (check_mark @ '' Created ECG_Arrhythmia.mlmodel'')) (\<lambda>_.
     preturn coreml_model))))))"

definition troponin_layers :: "layer list" where
  "troponin_layers =
     [Input [50] ''sensor_features'',
      Dense 256 ''relu'' None,
      BatchNormalization,
      Dense 128 ''relu'' None,
      Dropout (4, 1),
      Dense 64 ''relu'' None,
      Dense 32 ''relu'' None,
      Dense 1 ''linear'' (Some ''troponin_level'')]"

definition create_troponin_detection_model ::
    "('k, 'm, 'l) env \<Rightarrow> ('m mlmodel, 'k, 'm, 'l) exec" where
  "create_troponin_detection_model env =
     recorded (Invoke ''create_troponin_detection_model'') (
     pbind (keras_Sequential env troponin_layers) (\<lambda>model.
     pbind (model_compile env model ''adam'' ''mse'') (\<lambda>_.
     pbind (ct_convert env model
              [TensorType (Some [1, 50]) ''sensor_features'']
              [TensorType None ''troponin_ng_per_L'']
              iOS15 ComputeUnit_ALL) (\<lambda>coreml_model.
     let coreml_model = coreml_model\<lparr>author := ''LifeLens Medical AI''\<rparr>;
         coreml_model = coreml_model\<lparr>short_description :=
                          ''Troponin Level Detection (38ng/L sensitivity)''\<rparr>;
         coreml_model = coreml_model\<lparr>version := ''1.0.0''\<rparr>
     in
     pbind (mlmodel_save env coreml_model ''CoreMLModels/Troponin_Detection.mlmodel'') (\<lambda>_.
     pbind (print env (check_mark @ '' Created Troponin_Detection.mlmodel'')) (\<lambda>_.
     preturn coreml_model))))))"

definition bp_layers :: "layer list" where
  "bp_layers =
     [Input [200] ''ppg_ptt_signal'',
      Reshape [200, 1],
      LSTM 64 (Some True),
      LSTM 32 None,
      Dense 64 ''relu'' None,
      Dense 32 ''relu'' None,
      Dense 2 ''linear'' (Some ''bp_values'')]"

definition create_bp_estimation_model ::
    "('k, 'm, 'l) env \<Rightarrow> ('m mlmodel, 'k, 'm, 'l) exec" where
  "create_bp_estimation_model env =
     recorded (Invoke ''create_bp_estimation_model'') (
     pbind (keras_Sequential env bp_layers) (\<lambda>model.
     pbind (model_compile env model ''adam'' ''mse'') (\<lambda>_.
     pbind (ct_convert env model
              [TensorType (Some [1, 200]) ''ppg_ptt_signal'']
              [TensorType None ''blood_pressure'']
              iOS15 ComputeUnit_ALL) (\<lambda>coreml_model.
     let coreml_model = coreml_model\<lparr>author := ''LifeLens Medical AI''\<rparr>;
         coreml_model = coreml_model\<lparr>short_description :=
                          ''Blood Pressure Estimation ('' @ plus_minus @ ''5 mmHg accuracy)''\<rparr>;
         coreml_model = coreml_model\<lparr>version := ''1.0.0''\<rparr>
     in
     pbind (mlmodel_save env coreml_model ''CoreMLModels/BP_Estimation.mlmodel'') (\<lambda>_.
     pbind (print env (check_mark @ '' Created BP_Estimation.mlmodel'')) (\<lambda>_.
     preturn coreml_model))))))"

definition fall_layers :: "layer list" where
  "fall_layers =
     [Input [100, 6] ''imu_data'',
      Conv1D 32 3 ''relu'' None,
      MaxPooling1D 2,
      Conv1D 64 3 ''relu'' None,
      GlobalMaxPooling1D,
      Dense 32 ''relu'' None,
      Dense 2 ''softmax'' (Some ''fall_detection'')]"

definition create_fall_detection_model ::
    "('k, 'm, 'l) env \<Rightarrow> ('m mlmodel, 'k, 'm, 'l) exec" where
  "create_fall_detection_model env =
     recorded (Invoke ''create_fall_detection_model'') (
     pbind (keras_Sequential env fall_layers) (\<lambda>model.
     pbind (model_compile env model ''adam'' ''categorical_crossentropy'') (\<lambda>_.
     pbind (ct_convert env model
              [TensorType (Some [1, 100, 6]) ''imu_data'']
              [TensorType None ''fall_probability'']
              iOS15 ComputeUnit_ALL) (\<lambda>coreml_model.
     let coreml_model = coreml_model\<lparr>author := ''LifeLens Medical AI''\<rparr>;
         coreml_model = coreml_model\<lparr>short_description := ''Emergency Fall Detection''\<rparr>;
         coreml_model = coreml_model\<lparr>version := ''1.0.0''\<rparr>
     in
     pbind (mlmodel_save env coreml_model ''CoreMLModels/Fall_Detection.mlmodel'') (\<lambda>_.
     pbind (print env (check_mark @ '' Created Fall_Detection.mlmodel'')) (\<lambda>_.
     preturn coreml_model))))))"

definition activity_layers :: "layer list" where
  "activity_layers =
     [Input [150, 3] ''activity_data'',
      Conv1D 32 5 ''relu'' None,
      MaxPooling1D 2,
      Conv1D 64 5 ''relu'' None,
      Flatten,
      Dense 64 ''relu'' None,
      Dense 4 ''softmax'' (Some ''activity_class'')]"

definition create_activity_recognition_model ::
    "('k, 'm, 'l) env \<Rightarrow> ('m mlmodel, 'k, 'm, 'l) exec" where
  "create_activity_recognition_model env =
     recorded (Invoke ''create_activity_recognition_model'') (
     pbind (keras_Sequential env activity_layers) (\<lambda>model.
     pbind (model_compile env model ''adam'' ''categorical_crossentropy'') (\<lambda>_.
     pbind (ct_convert env model
              [TensorType (Some [1, 150, 3]) ''activity_data'']
              [TensorType None ''activity_probability'']
              iOS15 ComputeUnit_ALL) (\<lambda>coreml_model.
     let coreml_model = coreml_model\<lparr>author := ''LifeLens Medical AI''\<rparr>;
         coreml_model = coreml_model\<lparr>short_description :=
                          ''Activity Recognition (Exercise/Sleep/Stress)''\<rparr>;
         coreml_model = coreml_model\<lparr>version := ''1.0.0''\<rparr>
     in
     pbind (mlmodel_save env coreml_model ''CoreMLModels/Activity_Recognition.mlmodel'') (\<lambda>_.
     pbind (print env (check_mark @ '' Created Activity_Recognition.mlmodel'')) (\<lambda>_.
     preturn coreml_model))))))"

definition signal_quality_layers :: "layer list" where
  "signal_quality_layers =
     [Input [100] ''signal_data'',
      Dense 64 ''relu'' None,
      Dense 32 ''relu'' None,
      Dense 16 ''relu'' None,
      Dense 1 ''sigmoid'' (Some ''quality_score'')]"

definition create_signal_quality_model ::
    "('k, 'm, 'l) env \<Rightarrow> ('m mlmodel, 'k, 'm, 'l) exec" where
  "create_signal_quality_model env =
     recorded (Invoke ''create_signal_quality_model'') (
     pbind (keras_Sequential env signal_quality_layers) (\<lambda>model.
     pbind (model_compile env model ''adam'' ''binary_crossentropy'') (\<lambda>_.
     pbind (ct_convert env model
              [TensorType (Some [1, 100]) ''signal_data'']
              [TensorType None ''signal_quality'']
              iOS15 ComputeUnit_ALL) (\<lambda>coreml_model.
     let coreml_model = coreml_model\<lparr>author := ''LifeLens Medical AI''\<rparr>;
         coreml_model = coreml_model\<lparr>short_description := ''Signal Quality Assessment''\<rparr>;
         coreml_model = coreml_model\<lparr>version := ''1.0.0''\<rparr>
     in
     pbind (mlmodel_save env coreml_model ''CoreMLModels/Signal_Quality.mlmodel'') (\<lambda>_.
     pbind (print env (check_mark @ '' Created Signal_Quality.mlmodel'')) (\<lambda>_.
     preturn coreml_model))))))"

definition glucose_layers :: "layer list" where
  "glucose_layers =
     [Input [60, 5] ''glucose_history'',
      LSTM 64 (Some True),
      LSTM 32 None,
      Dense 32 ''relu'' None,
      Dense 6 ''linear'' (Some ''glucose_forecast'')]"

definition create_glucose_prediction_model ::
    "('k, 'm, 'l) env \<Rightarrow> ('m mlmodel, 'k, 'm, 'l) exec" where
  "create_glucose_prediction_model env =
     recorded (Invoke ''create_glucose_prediction_model'') (
     pbind (keras_Sequential env glucose_layers) (\<lambda>model.
     pbind (model_compile env model ''adam'' ''mse'') (\<lambda>_.
     pbind (ct_convert env model
              [TensorType (Some [1, 60, 5]) ''glucose_history'']
              [TensorType None ''glucose_predictions'']
              iOS15 ComputeUnit_ALL) (\<lambda>coreml_model.
     let coreml_model = coreml_model\<lparr>author := ''LifeLens Medical AI''\<rparr>;
         coreml_model = coreml_model\<lparr>short_description :=
                          ''Glucose Prediction (30-min forecast)''\<rparr>;
         coreml_model = coreml_model\<lparr>version := ''1.0.0''\<rparr>
     in
     pbind (mlmodel_save env coreml_model ''CoreMLModels/Glucose_Prediction.mlmodel'') (\<lambda>_.
     pbind (print env (check_mark @ '' Created Glucose_Prediction.mlmodel'')) (\<lambda>_.
     preturn coreml_model))))))"

subsection \<open>The module body and the main block\<close>

text \<open>The statements under \<^verbatim>\<open>if __name__ == "__main__":\<close>.\<close>

definition main_block :: "('k, 'm, 'l) env \<Rightarrow> (unit, 'k, 'm, 'l) exec" where
  "main_block env =
     pbind (print env ''Creating Core ML models for LifeLens...'') (\<lambda>_.
     pbind (print env (replicate 50 CHR ''='')) (\<lambda>_.
     pbind (create_arrhythmia_detection_model env) (\<lambda>_.
     pbind (create_troponin_detection_model env) (\<lambda>_.
     pbind (create_bp_estimation_model env) (\<lambda>_.
     pbind (create_fall_detection_model env) (\<lambda>_.
     pbind (create_activity_recognition_model env) (\<lambda>_.
     pbind (create_signal_quality_model env) (\<lambda>_.
     pbind (create_glucose_prediction_model env) (\<lambda>_.
     pbind (print env (replicate 50 CHR ''='')) (\<lambda>_.
     pbind (print env (check_mark @ '' All Core ML models created successfully!'')) (\<lambda>_.
     pbind (print env (folder_mark @ '' Models saved in: CoreMLModels/'')) (\<lambda>_.
     pbind (print env (CHR 0x0A # ''Next steps:'')) (\<lambda>_.
     pbind (print env ''1. Add CoreMLModels folder to Xcode project'') (\<lambda>_.
     pbind (print env ''2. Ensure 'Copy items if needed' is checked'') (\<lambda>_.
     print env ''3. Models will be compiled automatically by Xcode'')))))))))))))))"

text \<open>
  The module from its first line: the imports, the creation of the output directory, the
  seven \<^verbatim>\<open>def\<close> statements (which only bind names), and the main block when the module is
  run as the main program (\<open>is_main\<close>), nothing more when it is imported.
\<close>

definition script :: "('k, 'm, 'l) env \<Rightarrow> bool \<Rightarrow> (unit, 'k, 'm, 'l) exec" where
  "script env is_main =
     pbind (import_module env ''coremltools'') (\<lambda>_.
     pbind (import_module env ''numpy'') (\<lambda>_.
     pbind (import_module env ''coremltools.models.neural_network'') (\<lambda>_.
     pbind (import_module env ''tensorflow'') (\<lambda>_.
     pbind (import_module env ''tensorflow.keras'') (\<lambda>_.
     pbind (import_module env ''os'') (\<lambda>_.
     pbind (os_makedirs env ''CoreMLModels'' True) (\<lambda>_.
     if is_main then main_block env else preturn ())))))))"

subsection \<open>The seven functions as one family\<close>

text \<open>
  To speak of every one of the seven functions, they are indexed, and what varies from one
  to the next is tabulated: the name, the layers, the loss, the tensor types, the
  description, the path and the printed line. \<open>create_from\<close> is the text the seven
  definitions share; that each function is \<open>create_from\<close> at its row is proved below
  (\<open>create_is_create_from\<close>), not assumed.
\<close>

datatype model_fn =
    Arrhythmia | Troponin | BloodPressure | FallDetection | ActivityRecognition
  | SignalQuality | Glucose

fun create :: "model_fn \<Rightarrow> ('k, 'm, 'l) env \<Rightarrow> ('m mlmodel, 'k, 'm, 'l) exec" where
  "create Arrhythmia = create_arrhythmia_detection_model"
| "create Troponin = create_troponin_detection_model"
| "create BloodPressure = create_bp_estimation_model"
| "create FallDetection = create_fall_detection_model"
| "create ActivityRecognition = create_activity_recognition_model"
| "create SignalQuality = create_signal_quality_model"
| "create Glucose = create_glucose_prediction_model"

text \<open>The order of the calls in the main block.\<close>

definition driver_order :: "model_fn list" where
  "driver_order =
     [Arrhythmia, Troponin, BloodPressure, FallDetection, ActivityRecognition,
      SignalQuality, Glucose]"

fun name_of :: "model_fn \<Rightarrow> string" where
  "name_of Arrhythmia = ''create_arrhythmia_detection_model''"
| "name_of Troponin = ''create_troponin_detection_model''"
| "name_of BloodPressure = ''create_bp_estimation_model''"
| "name_of FallDetection = ''create_fall_detection_model''"
| "name_of ActivityRecognition = ''create_activity_recognition_model''"
| "name_of SignalQuality = ''create_signal_quality_model''"
| "name_of Glucose = ''create_glucose_prediction_model''"

fun layers_of :: "model_fn \<Rightarrow> layer list" where
  "layers_of Arrhythmia = arrhythmia_layers"
| "layers_of Troponin = troponin_layers"
| "layers_of BloodPressure = bp_layers"
| "layers_of FallDetection = fall_layers"
| "layers_of ActivityRecognition = activity_layers"
| "layers_of SignalQuality = signal_quality_layers"
| "layers_of Glucose = glucose_layers"

fun loss_of :: "model_fn \<Rightarrow> string" where
  "loss_of Arrhythmia = ''categorical_crossentropy''"
| "loss_of Troponin = ''mse''"
| "loss_of BloodPressure = ''mse''"
| "loss_of FallDetection = ''categorical_crossentropy''"
| "loss_of ActivityRecognition = ''categorical_crossentropy''"
| "loss_of SignalQuality = ''binary_crossentropy''"
| "loss_of Glucose = ''mse''"

fun inputs_of :: "model_fn \<Rightarrow> tensor_type list" where
  "inputs_of Arrhythmia = [TensorType (Some [1, 1000]) ''ecg_signal'']"
| "inputs_of Troponin = [TensorType (Some [1, 50]) ''sensor_features'']"
| "inputs_of BloodPressure = [TensorType (Some [1, 200]) ''ppg_ptt_signal'']"
| "inputs_of FallDetection = [TensorType (Some [1, 100, 6]) ''imu_data'']"
| "inputs_of ActivityRecognition = [TensorType (Some [1, 150, 3]) ''activity_data'']"
| "inputs_of SignalQuality = [TensorType (Some [1, 100]) ''signal_data'']"
| "inputs_of Glucose = [TensorType (Some [1, 60, 5]) ''glucose_history'']"

fun outputs_of :: "model_fn \<Rightarrow> tensor_type list" where
  "outputs_of Arrhythmia = [TensorType None ''arrhythmia_probability'']"
| "outputs_of Troponin = [TensorType None ''troponin_ng_per_L'']"
| "outputs_of BloodPressure = [TensorType None ''blood_pressure'']"
| "outputs_of FallDetection = [TensorType None ''fall_probability'']"
| "outputs_of ActivityRecognition = [TensorType None ''activity_probability'']"
| "outputs_of SignalQuality = [TensorType None ''signal_quality'']"
| "outputs_of Glucose = [TensorType None ''glucose_predictions'']"

fun description_of :: "model_fn \<Rightarrow> string" where
  "description_of Arrhythmia = ''ECG Arrhythmia Detection (AFib, VTach, PVCs)''"
| "description_of Troponin = ''Troponin Level Detection (38ng/L sensitivity)''"
| "description_of BloodPressure =
     ''Blood Pressure Estimation ('' @ plus_minus @ ''5 mmHg accuracy)''"
| "description_of FallDetection = ''Emergency Fall Detection''"
| "description_of ActivityRecognition = ''Activity Recognition (Exercise/Sleep/Stress)''"
| "description_of SignalQuality = ''Signal Quality Assessment''"
| "description_of Glucose = ''Glucose Prediction (30-min forecast)''"

fun file_of :: "model_fn \<Rightarrow> string" where
  "file_of Arrhythmia = ''ECG_Arrhythmia.mlmodel''"
| "file_of Troponin = ''Troponin_Detection.mlmodel''"
| "file_of BloodPressure = ''BP_Estimation.mlmodel''"
| "file_of FallDetection = ''Fall_Detection.mlmodel''"
| "file_of ActivityRecognition = ''Activity_Recognition.mlmodel''"
| "file_of SignalQuality = ''Signal_Quality.mlmodel''"
| "file_of Glucose = ''Glucose_Prediction.mlmodel''"

definition path_of :: "model_fn \<Rightarrow> string" where
  "path_of f = ''CoreMLModels/'' @ file_of f"

definition message_of :: "model_fn \<Rightarrow> string" where
  "message_of f = check_mark @ '' Created '' @ file_of f"

definition create_from :: "model_fn \<Rightarrow> ('k, 'm, 'l) env \<Rightarrow> ('m mlmodel, 'k, 'm, 'l) exec" where
  "create_from f env =
     recorded (Invoke (name_of f)) (
     pbind (keras_Sequential env (layers_of f)) (\<lambda>model.
     pbind (model_compile env model ''adam'' (loss_of f)) (\<lambda>_.
     pbind (ct_convert env model (inputs_of f) (outputs_of f) iOS15 ComputeUnit_ALL)
       (\<lambda>coreml_model.
     let coreml_model = coreml_model\<lparr>author := ''LifeLens Medical AI''\<rparr>;
         coreml_model = coreml_model\<lparr>short_description := description_of f\<rparr>;
         coreml_model = coreml_model\<lparr>version := ''1.0.0''\<rparr>
     in
     pbind (mlmodel_save env coreml_model (path_of f)) (\<lambda>_.
     pbind (print env (message_of f)) (\<lambda>_.
     preturn coreml_model))))))"

subsection \<open>Reading a run\<close>

text \<open>The calls entered in the history between two worlds of one run.\<close>

definition new_events ::
    "('k, 'm, 'l) world \<Rightarrow> ('k, 'm, 'l) world \<Rightarrow> (('k, 'm) request \<times> outcome) list" where
  "new_events w w' = drop (length (trace w)) (trace w')"

text \<open>The functions of the script that were called, in the order of the calls.\<close>

fun invoked :: "(('k, 'm) request \<times> outcome) list \<Rightarrow> string list" where
  "invoked [] = []"
| "invoked ((Invoke n, oc) # evs) = n # invoked evs"
| "invoked (ev # evs) = invoked evs"

text \<open>The paths given to \<^verbatim>\<open>save\<close>, and the names given to \<^verbatim>\<open>os.makedirs\<close>.\<close>

fun saved :: "(('k, 'm) request \<times> outcome) list \<Rightarrow> string list" where
  "saved [] = []"
| "saved ((Save m p, oc) # evs) = p # saved evs"
| "saved (ev # evs) = saved evs"

fun made :: "(('k, 'm) request \<times> outcome) list \<Rightarrow> string list" where
  "made [] = []"
| "made ((Makedirs n b, oc) # evs) = n # made evs"
| "made (ev # evs) = made evs"

text \<open>The path holds a saved model.\<close>

definition holds_model :: "('k, 'm, 'l) world \<Rightarrow> string \<Rightarrow> bool" where
  "holds_model w p \<longleftrightarrow> (\<exists>m. files w p = Some (ModelFile m))"

text \<open>The path of the function holds a saved model that carries the metadata of the function.\<close>

definition holds_model_of :: "('k, 'm, 'l) world \<Rightarrow> model_fn \<Rightarrow> bool" where
  "holds_model_of w g \<longleftrightarrow>
     (\<exists>m. files w (path_of g) = Some (ModelFile m) \<and> author m = ''LifeLens Medical AI'' \<and>
          short_description m = description_of g \<and> version m = ''1.0.0'')"

text \<open>The deployment arguments given to \<^verbatim>\<open>ct.convert\<close>, and the models given to \<^verbatim>\<open>save\<close>.\<close>

fun conversions :: "(('k, 'm) request \<times> outcome) list \<Rightarrow> (target \<times> compute_unit) list" where
  "conversions [] = []"
| "conversions ((Convert k i out t u, oc) # evs) = (t, u) # conversions evs"
| "conversions (ev # evs) = conversions evs"

fun saved_models :: "(('k, 'm) request \<times> outcome) list \<Rightarrow> 'm mlmodel list" where
  "saved_models [] = []"
| "saved_models ((Save m p, oc) # evs) = m # saved_models evs"
| "saved_models (ev # evs) = saved_models evs"

text \<open>The line that announces success at the end of the main block.\<close>

definition summary_line :: string where
  "summary_line = check_mark @ '' All Core ML models created successfully!''"



text \<open>
  Assumptions on the environment that some statements need: that no call hangs, and that
  what the library hands back depends on the arguments of the call alone, not on the
  hidden state of the library.
\<close>

definition always_returns :: "('k, 'm, 'l) env \<Rightarrow> bool" where
  "always_returns env \<longleftrightarrow>
     (\<forall>n l. fst (import_reply env n l) \<noteq> Hangs) \<and>
     (\<forall>n fs. mkdir_reply env n fs \<noteq> Hangs) \<and>
     (\<forall>ls l. fst (Sequential_reply env ls l) \<noteq> Hangs) \<and>
     (\<forall>k opt ls l. fst (compile_reply env k opt ls l) \<noteq> Hangs) \<and>
     (\<forall>k i out t u l. fst (convert_reply env k i out t u l) \<noteq> Hangs) \<and>
     (\<forall>m p fs l. save_reply env m p fs l \<noteq> Hangs) \<and>
     (\<forall>s out. print_reply env s out \<noteq> Hangs)"


text \<open>
  The libraries do their part: every import, \<^verbatim>\<open>mkdir\<close>, \<^verbatim>\<open>keras.Sequential\<close>, \<^verbatim>\<open>compile\<close>,
  \<^verbatim>\<open>ct.convert\<close> and \<^verbatim>\<open>print\<close> returns, and \<^verbatim>\<open>save\<close> returns when the output directory is
  there.
\<close>

definition libraries_return :: "('k, 'm, 'l) env \<Rightarrow> bool" where
  "libraries_return env \<longleftrightarrow>
     (\<forall>n l. fst (import_reply env n l) = Returns ()) \<and>
     (\<forall>n fs. mkdir_reply env n fs = Returns ()) \<and>
     (\<forall>ls l. returned (fst (Sequential_reply env ls l))) \<and>
     (\<forall>k opt ls l. fst (compile_reply env k opt ls l) = Returns ()) \<and>
     (\<forall>k i out t u l. returned (fst (convert_reply env k i out t u l))) \<and>
     (\<forall>m p fs l. fs ''CoreMLModels'' = Some Dir \<longrightarrow> save_reply env m p fs l = Returns ()) \<and>
     (\<forall>s out. print_reply env s out = Returns ())"

subsection \<open>The main block as a list of statements\<close>

text \<open>
  No statement of the main block uses the value of an earlier one, so the block is a list
  of statements run in order (\<open>main_block_steps\<close> below proves it); properties of the
  whole run are then proved by induction on the list.
\<close>

definition discard :: "('a, 'k, 'm, 'l) exec \<Rightarrow> (unit, 'k, 'm, 'l) exec" where
  "discard m = pbind m (\<lambda>_. preturn ())"

fun run_steps :: "(unit, 'k, 'm, 'l) exec list \<Rightarrow> (unit, 'k, 'm, 'l) exec" where
  "run_steps [] = preturn ()"
| "run_steps (s # ss) = pbind s (\<lambda>_. run_steps ss)"

definition header_steps :: "('k, 'm, 'l) env \<Rightarrow> (unit, 'k, 'm, 'l) exec list" where
  "header_steps env =
     [print env ''Creating Core ML models for LifeLens...'',
      print env (replicate 50 CHR ''='')]"

definition footer_steps :: "('k, 'm, 'l) env \<Rightarrow> (unit, 'k, 'm, 'l) exec list" where
  "footer_steps env =
     [print env (replicate 50 CHR ''=''),
      print env summary_line,
      print env (folder_mark @ '' Models saved in: CoreMLModels/''),
      print env (CHR 0x0A # ''Next steps:''),
      print env ''1. Add CoreMLModels folder to Xcode project'',
      print env ''2. Ensure 'Copy items if needed' is checked'',
      print env ''3. Models will be compiled automatically by Xcode'']"

definition main_steps :: "('k, 'm, 'l) env \<Rightarrow> (unit, 'k, 'm, 'l) exec list" where
  "main_steps env =
     header_steps env @ map (\<lambda>f. discard (create f env)) driver_order @ footer_steps env"

definition module_steps :: "('k, 'm, 'l) env \<Rightarrow> (unit, 'k, 'm, 'l) exec list" where
  "module_steps env =
     map (import_module env)
       [''coremltools'', ''numpy'', ''coremltools.models.neural_network'', ''tensorflow'',
        ''tensorflow.keras'', ''os'']
     @ [os_makedirs env ''CoreMLModels'' True]"

definition script_steps :: "('k, 'm, 'l) env \<Rightarrow> bool \<Rightarrow> (unit, 'k, 'm, 'l) exec list" where
  "script_steps env is_main = module_steps env @ (if is_main then main_steps env else [])"

text \<open>
  What each statement of \<open>script_steps\<close> adds to the list of functions invoked: the six
  imports and \<^verbatim>\<open>os.makedirs\<close> nothing, and in the main block the two prints nothing, each
  of the seven calls its own name, the seven last prints nothing.
\<close>

definition invoked_by :: "bool \<Rightarrow> string list list" where
  "invoked_by is_main =
     [[], [], [], [], [], [], []] @
     (if is_main
      then [[], []] @ map (\<lambda>f. [name_of f]) driver_order @ [[], [], [], [], [], [], []]
      else [])"

text \<open>A bound on the calls each statement of \<open>script_steps\<close> enters in the history.\<close>

definition calls_by :: "bool \<Rightarrow> nat list" where
  "calls_by is_main =
     [1, 1, 1, 1, 1, 1, 1] @
     (if is_main then [1, 1] @ [6, 6, 6, 6, 6, 6, 6] @ [1, 1, 1, 1, 1, 1, 1] else [])"

text \<open>The statements of a run as the main program up to the line of success, and after it.\<close>

definition before_summary :: "('k, 'm, 'l) env \<Rightarrow> (unit, 'k, 'm, 'l) exec list" where
  "before_summary env =
     module_steps env @ header_steps env @ map (\<lambda>f. discard (create f env)) driver_order @
     [print env (replicate 50 CHR ''='')]"

definition after_summary :: "('k, 'm, 'l) env \<Rightarrow> (unit, 'k, 'm, 'l) exec list" where
  "after_summary env =
     [print env (folder_mark @ '' Models saved in: CoreMLModels/''),
      print env (CHR 0x0A # ''Next steps:''),
      print env ''1. Add CoreMLModels folder to Xcode project'',
      print env ''2. Ensure 'Copy items if needed' is checked'',
      print env ''3. Models will be compiled automatically by Xcode'']"

subsection \<open>The shape of a history\<close>

fun is_invoke :: "('k, 'm) request \<Rightarrow> bool" where
  "is_invoke (Invoke n) = True"
| "is_invoke q = False"

text \<open>
  \<open>ended evs oc\<close>: the history \<open>evs\<close> is that of a run that ended with \<open>oc\<close>. Either every
  call returned and \<open>oc\<close> is \<open>Ok\<close>; or there is a first call that did not return, it ended
  with \<open>oc\<close>, and after it come only the functions of the script that were running at that
  moment, each ended the same way.
\<close>

fun ended :: "(('k, 'm) request \<times> outcome) list \<Rightarrow> outcome \<Rightarrow> bool" where
  "ended [] oc = (oc = Ok)"
| "ended ((q, x) # evs) oc =
     (if x = Ok then ended evs oc
      else x = oc \<and> list_all (\<lambda>ev. is_invoke (fst ev) \<and> snd ev = oc) evs)"

text \<open>A statement only adds to the history.\<close>

definition grows :: "('a, 'k, 'm, 'l) exec \<Rightarrow> bool" where
  "grows s \<longleftrightarrow> (\<forall>w. \<exists>evs. trace (snd (s w)) = trace w @ evs)"

subsection \<open>Two environments to run the script in\<close>

text \<open>
  A plain environment: every call returns; a model handle is the number of its layers, the
  converted model carries the handle and empty metadata, the library counts its calls, and
  saving needs the output directory.
\<close>

definition plain_env :: "(nat, nat, nat) env" where
  "plain_env =
     \<lparr>import_reply = (\<lambda>n l. (Returns (), Suc l)),
      mkdir_reply = (\<lambda>n fs. Returns ()),
      Sequential_reply = (\<lambda>ls l. (Returns (length ls), Suc l)),
      compile_reply = (\<lambda>k opt loss l. (Returns (), Suc l)),
      convert_reply = (\<lambda>k i out t u l.
        (Returns \<lparr>core = k, author = [], short_description = [], version = []\<rparr>, Suc l)),
      save_reply = (\<lambda>m p fs l.
        if fs ''CoreMLModels'' = Some Dir then Returns ()
        else Raises (OSError ''No such file or directory'')),
      print_reply = (\<lambda>s out. Returns ())\<rparr>"

text \<open>The same, on a disk that is full when the third model is saved.\<close>

definition full_disk_env :: "(nat, nat, nat) env" where
  "full_disk_env =
     plain_env\<lparr>save_reply := (\<lambda>m p fs l.
       if p = ''CoreMLModels/BP_Estimation.mlmodel''
       then Raises (OSError ''No space left on device'')
       else Returns ())\<rparr>"


definition empty_world :: "(nat, nat, nat) world" where
  "empty_world = \<lparr>files = (\<lambda>p. None), stdout = [], lib = 0, trace = []\<rparr>"

text \<open>A world in which the output directory is there already.\<close>

definition ready_world :: "(nat, nat, nat) world" where
  "ready_world = empty_world\<lparr>files := [''CoreMLModels'' \<mapsto> Dir]\<rparr>"

section \<open>Runs of a list of statements\<close>

lemma growsD: "grows s \<Longrightarrow> trace (snd (s w)) = trace w @ new_events w (snd (s w))"
  by (auto simp add: grows_def new_events_def dest: spec [of _ w])

lemma growsI: "(\<And>w. \<exists>evs. trace (snd (s w)) = trace w @ evs) \<Longrightarrow> grows s"
  by (simp add: grows_def)

lemma new_events_self [simp]: "new_events w w = []"
  by (simp add: new_events_def)

lemma new_events_trans:
  assumes "trace w1 = trace w @ a" and "trace w2 = trace w1 @ b"
  shows "new_events w w2 = new_events w w1 @ new_events w1 w2"
  using assms by (simp add: new_events_def)

lemma run_steps_Nil: "run_steps [] w = (Returns (), w)"
  by (simp add: preturn_def)

lemma run_steps_Cons:
  "run_steps (s # ss) w = (if fst (s w) = Returns () then run_steps ss (snd (s w)) else s w)"
  by (cases "s w"; cases "fst (s w)") (auto simp add: pbind_def)

declare run_steps.simps [simp del]

lemma grows_run_steps: "\<forall>s\<in>set ss. grows s \<Longrightarrow> grows (run_steps ss)"
proof (induction ss)
  case Nil
  show ?case by (rule growsI) (simp add: run_steps_Nil)
next
  case (Cons s ss)
  then have s: "grows s" and ss: "grows (run_steps ss)" by simp_all
  show ?case
  proof (rule growsI)
    fix w
    show "\<exists>evs. trace (snd (run_steps (s # ss) w)) = trace w @ evs"
      using growsD [OF s, of w] growsD [OF ss, of "snd (s w)"]
      by (auto simp add: run_steps_Cons)
  qed
qed

lemma events_continue:
  assumes "grows s" and "\<forall>t\<in>set ss. grows t"
  shows "new_events w (snd (run_steps ss (snd (s w)))) =
     new_events w (snd (s w)) @ new_events (snd (s w)) (snd (run_steps ss (snd (s w))))"
proof -
  have ss: "grows (run_steps ss)" using assms(2) by (rule grows_run_steps)
  show ?thesis
    by (rule new_events_trans [OF growsD [OF assms(1), of w] growsD [OF ss, of "snd (s w)"]])
qed

text \<open>Histories of runs that ended.\<close>

lemma ended_Ok: "ended evs Ok \<longleftrightarrow> (\<forall>ev\<in>set evs. snd ev = Ok)"
  by (induction evs) (auto split: if_splits)

lemma ended_append_Ok: "\<forall>ev\<in>set a. snd ev = Ok \<Longrightarrow> ended (a @ b) oc = ended b oc"
  by (induction a) auto

lemma ended_snoc: "ended evs oc \<Longrightarrow> ended (evs @ [(Invoke n, oc)]) oc"
  by (induction evs) (fastforce simp add: list_all_iff)+

lemma ended_split:
  assumes "ended (pre @ (q, x) # post) oc" and "x \<noteq> Ok"
  shows "oc = x \<and> (\<forall>ev\<in>set post. is_invoke (fst ev) \<and> snd ev = x)"
  using assms
proof (induction pre)
  case Nil
  then show ?case by (simp add: list_all_iff)
next
  case (Cons a pre)
  obtain q' y where a: "a = (q', y)" by (cases a)
  show ?case
  proof (cases "y = Ok")
    case True
    then show ?thesis using Cons a by simp
  next
    case False
    then have "y = oc" and all: "\<forall>ev\<in>set (pre @ (q, x) # post). is_invoke (fst ev) \<and> snd ev = oc"
      using Cons.prems(1) a by (simp_all add: list_all_iff)
    from all have "x = oc" by simp
    then show ?thesis using all by simp
  qed
qed

lemma ended_before:
  assumes "ended (pre @ (q, x) # post) oc" and "\<not> is_invoke q"
  shows "\<forall>ev\<in>set pre. snd ev = Ok"
  using assms by (induction pre) (fastforce simp add: list_all_iff split: if_splits)+

lemma outcome_Ok: "outcome_of r = Ok \<longleftrightarrow> (\<exists>a. r = Returns a)"
  by (cases r) auto

lemma ended_run_steps:
  assumes "\<forall>s\<in>set ss. grows s"
    and "\<forall>s\<in>set ss. \<forall>w. ended (new_events w (snd (s w))) (outcome_of (fst (s w)))"
  shows "ended (new_events w (snd (run_steps ss w))) (outcome_of (fst (run_steps ss w)))"
  using assms
proof (induction ss arbitrary: w)
  case Nil
  show ?case by (simp add: run_steps_Nil)
next
  case (Cons s ss)
  show ?case
  proof (cases "fst (s w) = Returns ()")
    case True
    have "ended (new_events w (snd (s w))) Ok" using Cons.prems(2) True
      by (metis list.set_intros(1) outcome_of.simps(1))
    then have ok: "\<forall>ev\<in>set (new_events w (snd (s w))). snd ev = Ok" by (simp add: ended_Ok)
    show ?thesis
      using Cons.IH [of "snd (s w)"] Cons.prems True ok
      by (simp add: run_steps_Cons events_continue ended_append_Ok)
  next
    case False
    then show ?thesis using Cons.prems by (simp add: run_steps_Cons)
  qed
qed

lemma all_events_run_steps:
  assumes "\<forall>s\<in>set ss. grows s"
    and "\<forall>s\<in>set ss. \<forall>w. \<forall>ev\<in>set (new_events w (snd (s w))). P ev"
  shows "\<forall>ev\<in>set (new_events w (snd (run_steps ss w))). P ev"
  using assms
proof (induction ss arbitrary: w)
  case Nil
  show ?case by (simp add: run_steps_Nil)
next
  case (Cons s ss)
  then show ?case by (auto simp add: run_steps_Cons events_continue)
qed

lemma related_run_steps:
  assumes refl: "\<And>w. R w w" and trans: "\<And>a b c. R a b \<Longrightarrow> R b c \<Longrightarrow> R a c"
    and "\<forall>s\<in>set ss. \<forall>w. R w (snd (s w))"
  shows "R w (snd (run_steps ss w))"
  using assms(3)
proof (induction ss arbitrary: w)
  case Nil
  show ?case by (simp add: run_steps_Nil refl)
next
  case (Cons s ss)
  then show ?case by (auto simp add: run_steps_Cons intro: trans)
qed

lemma no_hang_run_steps:
  assumes "\<forall>s\<in>set ss. \<forall>w. fst (s w) \<noteq> Hangs"
  shows "fst (run_steps ss w) \<noteq> Hangs"
  using assms by (induction ss arbitrary: w) (auto simp add: run_steps_Nil run_steps_Cons)

lemma length_run_steps:
  assumes "\<forall>s\<in>set ss. grows s"
    and "\<forall>(s, n)\<in>set (zip ss ns). \<forall>w. length (new_events w (snd (s w))) \<le> n"
    and "length ns = length ss"
  shows "length (new_events w (snd (run_steps ss w))) \<le> sum_list ns"
  using assms
proof (induction ss arbitrary: w ns)
  case Nil
  show ?case by (simp add: run_steps_Nil)
next
  case (Cons s ss)
  then obtain n ns' where ns: "ns = n # ns'" by (cases ns) auto
  have s: "length (new_events w (snd (s w))) \<le> n" using Cons.prems(2) ns by simp
  have "length (new_events (snd (s w)) (snd (run_steps ss (snd (s w))))) \<le> sum_list ns'"
    using Cons.IH [of ns' "snd (s w)"] Cons.prems ns by simp
  then show ?case using s Cons.prems(1) ns by (simp add: run_steps_Cons events_continue)
qed

text \<open>
  What is read off a history (the functions invoked, the paths saved) when each statement
  contributes the same whatever the world.
\<close>

lemma obs_run_steps:
  assumes app: "\<And>a b. obs (a @ b) = obs a @ obs b" and nil: "obs [] = []"
    and "\<forall>s\<in>set ss. grows s"
    and "\<forall>(s, c)\<in>set (zip ss cs). \<forall>w. obs (new_events w (snd (s w))) = c"
    and "length cs = length ss"
  shows "\<exists>k\<le>length cs. obs (new_events w (snd (run_steps ss w))) = concat (take k cs) \<and>
           (fst (run_steps ss w) = Returns () \<longrightarrow> k = length cs)"
  using assms(3-)
proof (induction ss arbitrary: w cs)
  case Nil
  then show ?case by (simp add: run_steps_Nil nil)
next
  case (Cons s ss)
  then obtain c cs' where cs: "cs = c # cs'" by (cases cs) auto
  have s: "obs (new_events w (snd (s w))) = c" using Cons.prems(2) cs by simp
  show ?case
  proof (cases "fst (s w) = Returns ()")
    case True
    obtain k where k: "k \<le> length cs'"
      "obs (new_events (snd (s w)) (snd (run_steps ss (snd (s w))))) = concat (take k cs')"
      "fst (run_steps ss (snd (s w))) = Returns () \<longrightarrow> k = length cs'"
      using Cons.IH [of cs' "snd (s w)"] Cons.prems cs by auto
    show ?thesis
      using k s True Cons.prems(1) cs
      by (intro exI [of _ "Suc k"]) (simp add: run_steps_Cons events_continue app)
  next
    case False
    then show ?thesis using s Cons.prems(1) cs
      by (intro exI [of _ "Suc 0"]) (simp add: run_steps_Cons)
  qed
qed

section \<open>The statements of the script\<close>

lemma create_is_create_from: "create f env = create_from f env"
  by (cases f)
     (simp_all add: create_from_def create_arrhythmia_detection_model_def
        create_troponin_detection_model_def create_bp_estimation_model_def
        create_fall_detection_model_def create_activity_recognition_model_def
        create_signal_quality_model_def create_glucose_prediction_model_def
        path_of_def message_of_def)

lemmas call_defs = keras_Sequential_def model_compile_def ct_convert_def mlmodel_save_def
  print_def import_module_def os_makedirs_def os_mkdir_def recorded_def pbind_def preturn_def

lemma snd_discard: "snd (discard m w) = snd (m w)"
  by (simp add: discard_def pbind_def preturn_def split: prod.splits reply.splits)

lemma outcome_discard: "outcome_of (fst (discard m w)) = outcome_of (fst (m w))"
  by (simp add: discard_def pbind_def preturn_def split: prod.splits reply.splits)

lemma fst_discard_Returns: "fst (discard m w) = Returns () \<longleftrightarrow> (\<exists>a. fst (m w) = Returns a)"
  by (simp add: discard_def pbind_def preturn_def split: prod.splits reply.splits)

lemma fst_discard_Hangs: "fst (discard m w) = Hangs \<longleftrightarrow> fst (m w) = Hangs"
  by (simp add: discard_def pbind_def preturn_def split: prod.splits reply.splits)

lemma grows_discard: "grows m \<Longrightarrow> grows (discard m)"
  by (simp add: grows_def snd_discard)

text \<open>The calls of the module body and of the main block.\<close>

lemma print_trace:
  "trace (snd (print env s w)) = trace w @ [(Print s, outcome_of (fst (print env s w)))]"
  by (simp add: call_defs split: prod.splits reply.splits)

lemma print_files: "files (snd (print env s w)) = files w"
  by (simp add: call_defs split: prod.splits reply.splits)

lemma import_trace:
  "trace (snd (import_module env n w)) = trace w @ [(Import n, outcome_of (fst (import_module env n w)))]"
  by (simp add: call_defs split: prod.splits reply.splits)

lemma import_files: "files (snd (import_module env n w)) = files w"
  by (simp add: call_defs split: prod.splits reply.splits)

lemma makedirs_trace:
  "trace (snd (os_makedirs env n b w)) =
     trace w @ [(Makedirs n b, outcome_of (fst (os_makedirs env n b w)))]"
  by (simp add: call_defs split: prod.splits reply.splits error.splits)

lemma makedirs_files: "p \<noteq> n \<Longrightarrow> files (snd (os_makedirs env n b w)) p = files w p"
  by (simp add: call_defs split: prod.splits reply.splits error.splits if_splits)

lemma makedirs_Returns: "fst (os_makedirs env n b w) = Returns () \<Longrightarrow> isdir (snd (os_makedirs env n b w)) n"
  by (auto simp add: call_defs isdir_def split: prod.splits reply.splits error.splits if_splits)

lemma makedirs_exists:
  "isdir w n \<Longrightarrow> fst (os_makedirs env n True w) = Returns () \<and> files (snd (os_makedirs env n True w)) = files w"
  by (auto simp add: call_defs isdir_def split: prod.splits reply.splits error.splits if_splits)

text \<open>One of the seven functions, whatever way it ends.\<close>

lemma create_trace:
  "\<exists>evs. trace (snd (create_from f env w)) =
     trace w @ evs @ [(Invoke (name_of f), outcome_of (fst (create_from f env w)))] \<and>
     ended evs (outcome_of (fst (create_from f env w))) \<and>
     (\<forall>ev\<in>set evs. \<not> is_invoke (fst ev)) \<and> length evs \<le> 5 \<and>
     (\<forall>ev\<in>set evs. \<forall>s. fst ev = Print s \<longrightarrow> s = message_of f) \<and>
     (\<forall>ev\<in>set evs. \<forall>m p. fst ev = Save m p \<longrightarrow> p = path_of f \<and> author m = ''LifeLens Medical AI'' \<and> version m = ''1.0.0'') \<and>
     (\<forall>ev\<in>set evs. \<forall>n b. fst ev \<noteq> Makedirs n b) \<and>
     (\<forall>ev\<in>set evs. \<forall>k i out t u. fst ev = Convert k i out t u \<longrightarrow> t = iOS15 \<and> u = ComputeUnit_ALL)"
  by (auto simp add: create_from_def call_defs Let_def split: prod.splits reply.splits)

lemma create_files: "p \<noteq> path_of f \<Longrightarrow> files (snd (create_from f env w)) p = files w p"
  by (auto simp add: create_from_def call_defs Let_def split: prod.splits reply.splits)

lemma create_no_hang: "always_returns env \<Longrightarrow> fst (create_from f env w) \<noteq> Hangs"
  apply (auto simp add: create_from_def call_defs Let_def always_returns_def split: prod.splits reply.splits)
  apply (metis fst_conv)+
  done

lemma create_returns_pair:
  assumes "create_from f env w = (Returns m, w')"
  shows "\<exists>k c l1 l2 l3.
     Sequential_reply env (layers_of f) (lib w) = (Returns k, l1) \<and>
     compile_reply env k ''adam'' (loss_of f) l1 = (Returns (), l2) \<and>
     convert_reply env k (inputs_of f) (outputs_of f) iOS15 ComputeUnit_ALL l2 = (Returns c, l3) \<and>
     m = c\<lparr>author := ''LifeLens Medical AI'', short_description := description_of f,
           version := ''1.0.0''\<rparr> \<and>
     w' = w\<lparr>files := (files w)(path_of f \<mapsto> ModelFile m),
            stdout := stdout w @ [message_of f],
            lib := l3,
            trace := trace w @
              [(Sequential (layers_of f), Ok),
               (Compile k ''adam'' (loss_of f), Ok),
               (Convert k (inputs_of f) (outputs_of f) iOS15 ComputeUnit_ALL, Ok),
               (Save m (path_of f), Ok),
               (Print (message_of f), Ok),
               (Invoke (name_of f), Ok)]\<rparr>"
  using assms
  by (auto simp add: create_from_def call_defs Let_def split: prod.splits reply.splits)

lemma create_returns:
  assumes "fst (create_from f env w) = Returns m"
  shows "\<exists>k c l1 l2 l3.
     Sequential_reply env (layers_of f) (lib w) = (Returns k, l1) \<and>
     compile_reply env k ''adam'' (loss_of f) l1 = (Returns (), l2) \<and>
     convert_reply env k (inputs_of f) (outputs_of f) iOS15 ComputeUnit_ALL l2 = (Returns c, l3) \<and>
     m = c\<lparr>author := ''LifeLens Medical AI'', short_description := description_of f,
           version := ''1.0.0''\<rparr> \<and>
     snd (create_from f env w) = w\<lparr>files := (files w)(path_of f \<mapsto> ModelFile m),
            stdout := stdout w @ [message_of f],
            lib := l3,
            trace := trace w @
              [(Sequential (layers_of f), Ok),
               (Compile k ''adam'' (loss_of f), Ok),
               (Convert k (inputs_of f) (outputs_of f) iOS15 ComputeUnit_ALL, Ok),
               (Save m (path_of f), Ok),
               (Print (message_of f), Ok),
               (Invoke (name_of f), Ok)]\<rparr>"
proof -
  have "create_from f env w = (Returns m, snd (create_from f env w))"
    using assms by (metis prod.collapse)
  then show ?thesis by (rule create_returns_pair)
qed

lemma create_deployment:
  "set (conversions (new_events w (snd (create_from f env w)))) \<subseteq> {(iOS15, ComputeUnit_ALL)} \<and>
   (\<forall>m\<in>set (saved_models (new_events w (snd (create_from f env w)))).
      author m = ''LifeLens Medical AI'' \<and> version m = ''1.0.0'')"
  by (auto simp add: create_from_def call_defs Let_def new_events_def split: prod.splits reply.splits)

lemma path_of_mlmodel: "\<exists>stem. path_of f = ''CoreMLModels/'' @ stem @ ''.mlmodel''"
  by (cases f) (simp_all add: path_of_def)

section \<open>The script as a list of statements\<close>

lemma pbind_discard: "pbind (discard m) f = pbind m (\<lambda>_. f ())"
  by (rule ext) (simp add: pbind_def discard_def preturn_def split: prod.splits reply.splits)

lemma pbind_preturn: "pbind m preturn = m"
  by (rule ext) (simp add: pbind_def preturn_def split: prod.splits reply.splits)

lemma pbind_preturn_unit: "pbind (m :: (unit, 'k, 'm, 'l) exec) (\<lambda>_. preturn ()) = m"
  by (rule ext) (simp add: pbind_def preturn_def split: prod.splits reply.splits)

lemma main_block_steps: "main_block env = run_steps (main_steps env)"
  by (simp add: main_block_def main_steps_def header_steps_def footer_steps_def driver_order_def
      pbind_discard pbind_preturn_unit pbind_preturn summary_line_def run_steps.simps)

lemma run_steps_append: "run_steps (xs @ ys) = run_steps (run_steps xs # ys)"
proof (rule ext)
  fix w
  show "run_steps (xs @ ys) w = run_steps (run_steps xs # ys) w"
  proof (induction xs arbitrary: w)
    case Nil
    show ?case by (simp add: run_steps_Cons run_steps_Nil)
  next
    case (Cons s xs)
    show ?case using Cons [of "snd (s w)"] by (simp add: run_steps_Cons)
  qed
qed

lemma script_is_steps: "script env is_main = run_steps (script_steps env is_main)"
proof -
  have "script env is_main =
      run_steps (module_steps env @ [if is_main then main_block env else preturn ()])"
    by (simp add: script_def module_steps_def run_steps.simps pbind_preturn_unit pbind_preturn)
  also have "\<dots> = run_steps (script_steps env is_main)"
  proof (cases is_main)
    case True
    have "run_steps (module_steps env @ [run_steps (main_steps env)]) =
        run_steps (run_steps (module_steps env) # [run_steps (main_steps env)])"
      by (rule run_steps_append)
    also have "\<dots> = run_steps (run_steps (module_steps env) # main_steps env)"
      by (simp add: run_steps.simps pbind_preturn_unit pbind_preturn)
    also have "\<dots> = run_steps (module_steps env @ main_steps env)"
      by (rule run_steps_append [symmetric])
    finally show ?thesis using True by (simp add: script_steps_def main_block_steps)
  next
    case False
    have "run_steps (module_steps env @ [preturn ()]) =
        run_steps (run_steps (module_steps env) # [preturn ()])"
      by (rule run_steps_append)
    also have "\<dots> = run_steps (module_steps env)"
      by (simp add: run_steps.simps pbind_preturn_unit pbind_preturn)
    finally show ?thesis using False by (simp add: script_steps_def)
  qed
  finally show ?thesis .
qed

text \<open>Every statement of the script is of one of four kinds.\<close>

lemma script_steps_kinds:
  assumes "s \<in> set (script_steps env is_main)"
  shows "(\<exists>n. s = import_module env n) \<or> s = os_makedirs env ''CoreMLModels'' True \<or>
     (\<exists>l. s = print env l) \<or> (\<exists>f. s = discard (create f env))"
  using assms
  by (auto simp add: script_steps_def module_steps_def main_steps_def header_steps_def
      footer_steps_def split: if_splits)

lemma events_print:
  "new_events w (snd (print env s w)) = [(Print s, outcome_of (fst (print env s w)))]"
  by (simp add: new_events_def print_trace)

lemma events_import:
  "new_events w (snd (import_module env n w)) = [(Import n, outcome_of (fst (import_module env n w)))]"
  by (simp add: new_events_def import_trace)

lemma events_makedirs:
  "new_events w (snd (os_makedirs env n b w)) = [(Makedirs n b, outcome_of (fst (os_makedirs env n b w)))]"
  by (simp add: new_events_def makedirs_trace)

lemma grows_print: "grows (print env s)"
  by (rule growsI) (simp add: print_trace)

lemma grows_import: "grows (import_module env n)"
  by (rule growsI) (simp add: import_trace)

lemma grows_makedirs: "grows (os_makedirs env n b)"
  by (rule growsI) (simp add: makedirs_trace)

lemma grows_create: "grows (create f env)"
proof (rule growsI)
  fix w
  from create_trace [of f env w] show "\<exists>evs. trace (snd (create f env w)) = trace w @ evs"
    by (auto simp add: create_is_create_from)
qed

lemma events_create:
  "\<exists>evs. new_events w (snd (create f env w)) =
       evs @ [(Invoke (name_of f), outcome_of (fst (create f env w)))] \<and>
     ended evs (outcome_of (fst (create f env w))) \<and>
     (\<forall>ev\<in>set evs. \<not> is_invoke (fst ev)) \<and> length evs \<le> 5 \<and>
     (\<forall>ev\<in>set evs. \<forall>s. fst ev = Print s \<longrightarrow> s = message_of f) \<and>
     (\<forall>ev\<in>set evs. \<forall>m p. fst ev = Save m p \<longrightarrow> p = path_of f) \<and>
     (\<forall>ev\<in>set evs. \<forall>n b. fst ev \<noteq> Makedirs n b)"
proof -
  from create_trace [of f env w] obtain evs where
    "trace (snd (create_from f env w)) =
       trace w @ evs @ [(Invoke (name_of f), outcome_of (fst (create_from f env w)))]"
    and rest: "ended evs (outcome_of (fst (create_from f env w)))"
     "\<forall>ev\<in>set evs. \<not> is_invoke (fst ev)" "length evs \<le> 5"
     "\<forall>ev\<in>set evs. \<forall>s. fst ev = Print s \<longrightarrow> s = message_of f"
     "\<forall>ev\<in>set evs. \<forall>m p. fst ev = Save m p \<longrightarrow> p = path_of f \<and> author m = ''LifeLens Medical AI'' \<and> version m = ''1.0.0''"
     "\<forall>ev\<in>set evs. \<forall>n b. fst ev \<noteq> Makedirs n b"
    by blast
  then have "new_events w (snd (create f env w)) =
       evs @ [(Invoke (name_of f), outcome_of (fst (create f env w)))]"
    by (simp add: new_events_def create_is_create_from)
  with rest show ?thesis by (auto simp add: create_is_create_from)
qed

lemma events_discard: "new_events w (snd (discard m w)) = new_events w (snd (m w))"
  by (simp add: snd_discard)

lemma ended_single: "ended [(q, oc)] oc"
  by simp

lemma script_steps_grow: "\<forall>s\<in>set (script_steps env is_main). grows s"
  by (auto dest!: script_steps_kinds simp add: grows_print grows_import grows_makedirs
      grows_create grows_discard)

lemma ended_create: "ended (new_events w (snd (create f env w))) (outcome_of (fst (create f env w)))"
proof -
  from events_create [of w f env] obtain evs where
    "new_events w (snd (create f env w)) =
       evs @ [(Invoke (name_of f), outcome_of (fst (create f env w)))]"
    "ended evs (outcome_of (fst (create f env w)))"
    by blast
  then show ?thesis by (simp add: ended_snoc)
qed

lemma script_steps_ended:
  "\<forall>s\<in>set (script_steps env is_main). \<forall>w.
     ended (new_events w (snd (s w))) (outcome_of (fst (s w)))"
  by (auto dest!: script_steps_kinds
      simp add: events_print events_import events_makedirs events_discard outcome_discard
        ended_create simp del: ended.simps intro: ended_single)

lemma ended_script:
  "ended (new_events w (snd (script env is_main w))) (outcome_of (fst (script env is_main w)))"
  unfolding script_is_steps
  by (rule ended_run_steps [OF script_steps_grow script_steps_ended])

lemma outcome_Err: "outcome_of r = Err e \<longleftrightarrow> r = Raises e"
  by (cases r) auto

lemma invoked_append: "invoked (a @ b) = invoked a @ invoked b"
  by (induction a rule: invoked.induct) simp_all

lemma saved_append: "saved (a @ b) = saved a @ saved b"
  by (induction a rule: saved.induct) simp_all

lemma made_append: "made (a @ b) = made a @ made b"
  by (induction a rule: made.induct) simp_all

lemma invoked_none: "\<forall>ev\<in>set evs. \<not> is_invoke (fst ev) \<Longrightarrow> invoked evs = []"
  by (induction evs rule: invoked.induct) simp_all

lemma invoked_mem: "(Invoke n, oc) \<in> set evs \<Longrightarrow> n \<in> set (invoked evs)"
  by (induction evs rule: invoked.induct) auto

lemma invoked_create: "invoked (new_events w (snd (create f env w))) = [name_of f]"
proof -
  from events_create [of w f env] obtain evs where
    "new_events w (snd (create f env w)) =
       evs @ [(Invoke (name_of f), outcome_of (fst (create f env w)))]"
    "\<forall>ev\<in>set evs. \<not> is_invoke (fst ev)"
    by blast
  then show ?thesis by (simp add: invoked_append invoked_none)
qed

lemma concat_take_prefix: "concat (take k cs) = take (length (concat (take k cs))) (concat cs)"
proof -
  have "concat cs = concat (take k cs) @ concat (drop k cs)"
    by (metis append_take_drop_id concat_append)
  then show ?thesis by simp
qed

lemma invoked_script_steps:
  "\<forall>(s, c)\<in>set (zip (script_steps env is_main) (invoked_by is_main)). \<forall>w.
     invoked (new_events w (snd (s w))) = c"
  by (cases is_main)
     (simp_all add: script_steps_def module_steps_def main_steps_def header_steps_def
        footer_steps_def driver_order_def invoked_by_def events_print events_import
        events_makedirs events_discard invoked_create del: create.simps)

lemma invoked_script:
  "\<exists>k\<le>length (invoked_by is_main).
     invoked (new_events w (snd (script env is_main w))) = concat (take k (invoked_by is_main)) \<and>
     (fst (script env is_main w) = Returns () \<longrightarrow> k = length (invoked_by is_main))"
  unfolding script_is_steps
proof (rule obs_run_steps [OF invoked_append _ script_steps_grow invoked_script_steps])
  show "invoked [] = []" by simp
  show "length (invoked_by is_main) = length (script_steps env is_main)"
    by (simp add: script_steps_def module_steps_def main_steps_def header_steps_def
        footer_steps_def driver_order_def invoked_by_def)
qed

lemma concat_invoked_by:
  "concat (invoked_by is_main) = (if is_main then map name_of driver_order else [])"
  by (simp add: invoked_by_def driver_order_def)

lemma print_no_hang: "always_returns env \<Longrightarrow> fst (print env s w) \<noteq> Hangs"
  by (auto simp add: call_defs always_returns_def split: prod.splits reply.splits)

lemma import_no_hang: "always_returns env \<Longrightarrow> fst (import_module env n w) \<noteq> Hangs"
  apply (auto simp add: call_defs always_returns_def split: prod.splits reply.splits)
  apply (metis fst_conv)
  done

lemma makedirs_no_hang: "always_returns env \<Longrightarrow> fst (os_makedirs env n b w) \<noteq> Hangs"
  by (auto simp add: call_defs always_returns_def split: prod.splits reply.splits error.splits if_splits)

lemma script_steps_no_hang:
  assumes "always_returns env"
  shows "\<forall>s\<in>set (script_steps env is_main). \<forall>w. fst (s w) \<noteq> Hangs"
  using assms
  by (auto dest!: script_steps_kinds
      simp add: print_no_hang import_no_hang makedirs_no_hang fst_discard_Hangs
        create_is_create_from create_no_hang)

lemma length_events_create: "length (new_events w (snd (create f env w))) \<le> 6"
proof -
  from events_create [of w f env] obtain evs where
    "new_events w (snd (create f env w)) =
       evs @ [(Invoke (name_of f), outcome_of (fst (create f env w)))]"
    "length evs \<le> 5"
    by blast
  then show ?thesis by simp
qed

lemma calls_script_steps:
  "\<forall>(s, n)\<in>set (zip (script_steps env is_main) (calls_by is_main)). \<forall>w.
     length (new_events w (snd (s w))) \<le> n"
  by (cases is_main)
     (simp_all add: script_steps_def module_steps_def main_steps_def header_steps_def
        footer_steps_def driver_order_def calls_by_def events_print events_import
        events_makedirs events_discard length_events_create del: create.simps)

lemma length_script: "length (new_events w (snd (script env is_main w))) \<le> 58"
proof -
  have "length (new_events w (snd (run_steps (script_steps env is_main) w))) \<le>
      sum_list (calls_by is_main)"
  proof (rule length_run_steps [OF script_steps_grow calls_script_steps])
    show "length (calls_by is_main) = length (script_steps env is_main)"
      by (simp add: script_steps_def module_steps_def main_steps_def header_steps_def
          footer_steps_def driver_order_def calls_by_def)
  qed
  moreover have "sum_list (calls_by is_main) \<le> 58" by (simp add: calls_by_def)
  ultimately show ?thesis by (simp add: script_is_steps)
qed

lemma distinct_names: "distinct (map name_of driver_order)"
  by (simp add: driver_order_def)

lemma distinct_invoked_script: "distinct (invoked (new_events w (snd (script env is_main w))))"
proof -
  from invoked_script [of is_main w env] obtain k where
    "invoked (new_events w (snd (script env is_main w))) = concat (take k (invoked_by is_main))"
    by blast
  then have "invoked (new_events w (snd (script env is_main w))) =
      take (length (concat (take k (invoked_by is_main)))) (concat (invoked_by is_main))"
    using concat_take_prefix [of k "invoked_by is_main"] by simp
  moreover have "distinct (concat (invoked_by is_main))"
    using distinct_names by (simp add: concat_invoked_by)
  ultimately show ?thesis by (simp add: distinct_take)
qed

section \<open>The line of success\<close>

lemma unique_split:
  assumes "xs @ a # ys = us @ b # vs" and "P b"
    and "\<forall>x\<in>set xs. \<not> P x" and "\<forall>x\<in>set ys. \<not> P x"
  shows "us = xs \<and> vs = ys"
  using assms
proof (induction xs arbitrary: us)
  case Nil
  then show ?case by (cases us) auto
next
  case (Cons x xs)
  then show ?case by (cases us) auto
qed

lemma obs_run_steps_returns:
  assumes app: "\<And>a b. obs (a @ b) = obs a @ obs b" and nil: "obs [] = []"
    and "\<forall>s\<in>set ss. grows s"
    and "\<forall>(s, c)\<in>set (zip ss cs). \<forall>w. fst (s w) = Returns () \<longrightarrow> obs (new_events w (snd (s w))) = c"
    and "length cs = length ss"
    and "fst (run_steps ss w) = Returns ()"
  shows "obs (new_events w (snd (run_steps ss w))) = concat cs"
  using assms(3-)
proof (induction ss arbitrary: w cs)
  case Nil
  then show ?case by (simp add: run_steps_Nil nil)
next
  case (Cons s ss)
  then obtain c cs' where cs: "cs = c # cs'" by (cases cs) auto
  have ret: "fst (s w) = Returns ()"
    using Cons.prems(4) by (auto simp add: run_steps_Cons split: if_splits)
  then have s: "obs (new_events w (snd (s w))) = c" using Cons.prems(2) cs by simp
  have "obs (new_events (snd (s w)) (snd (run_steps ss (snd (s w))))) = concat cs'"
    using Cons.IH [of cs' "snd (s w)"] Cons.prems cs ret by (simp add: run_steps_Cons)
  then show ?case using s ret Cons.prems(1) cs
    by (simp add: run_steps_Cons events_continue app)
qed

lemma script_steps_split:
  "script_steps env True = before_summary env @ print env summary_line # after_summary env"
  by (simp add: script_steps_def main_steps_def footer_steps_def before_summary_def
      after_summary_def)

lemma before_summary_subset: "set (before_summary env) \<subseteq> set (script_steps env True)"
  by (auto simp add: script_steps_split)

lemma module_steps_subset: "set (module_steps env) \<subseteq> set (script_steps env is_main)"
  by (auto simp add: script_steps_def)

lemma after_summary_prints: "s \<in> set (after_summary env) \<Longrightarrow> \<exists>l. s = print env l \<and> l \<noteq> summary_line"
  by (auto simp add: after_summary_def summary_line_def check_mark_def folder_mark_def)

lemma message_not_summary: "message_of f \<noteq> summary_line"
  by (cases f) (simp_all add: message_of_def summary_line_def)

lemma separator_not_summary: "replicate 50 CHR ''='' \<noteq> summary_line"
proof
  assume "replicate 50 CHR ''='' = summary_line"
  then have "length (replicate 50 CHR ''='') = length summary_line" by simp
  then show False by (simp add: summary_line_def check_mark_def)
qed

lemma before_summary_kinds:
  assumes "s \<in> set (before_summary env)"
  shows "(\<exists>n. s = import_module env n) \<or> s = os_makedirs env ''CoreMLModels'' True \<or>
     (\<exists>l. s = print env l \<and> l \<noteq> summary_line) \<or> (\<exists>f. s = discard (create f env))"
proof -
  have "''Creating Core ML models for LifeLens...'' \<noteq> summary_line"
    by (simp add: summary_line_def check_mark_def)
  then show ?thesis
    using assms separator_not_summary
    by (auto simp add: before_summary_def module_steps_def header_steps_def)
qed

lemma create_no_summary:
  "(Print summary_line, oc) \<notin> set (new_events w (snd (create f env w)))"
proof -
  from events_create [of w f env] obtain evs where
    "new_events w (snd (create f env w)) =
       evs @ [(Invoke (name_of f), outcome_of (fst (create f env w)))]"
    "\<forall>ev\<in>set evs. \<forall>s. fst ev = Print s \<longrightarrow> s = message_of f"
    by blast
  then show ?thesis using message_not_summary [of f] by auto
qed

lemma run_steps_continue: "fst (s w) = Returns () \<Longrightarrow> run_steps (s # ss) w = run_steps ss (snd (s w))"
  by (simp add: run_steps_Cons)

lemma before_summary_quiet:
  "\<forall>s\<in>set (before_summary env). \<forall>w.
     \<forall>ev\<in>set (new_events w (snd (s w))). fst ev \<noteq> Print summary_line"
  by (auto dest!: before_summary_kinds
      simp add: events_print events_import events_makedirs events_discard create_no_summary)

lemma module_steps_quiet:
  "\<forall>s\<in>set (module_steps env). \<forall>w.
     \<forall>ev\<in>set (new_events w (snd (s w))). fst ev \<noteq> Print summary_line"
  by (auto simp add: module_steps_def events_import events_makedirs)

lemma after_summary_quiet:
  "\<forall>s\<in>set (after_summary env). \<forall>w.
     \<forall>ev\<in>set (new_events w (snd (s w))).
       fst ev \<noteq> Print summary_line \<and> (\<exists>l. fst ev = Print l)"
  by (auto dest!: after_summary_prints simp add: events_print)

lemma grows_subset: "set ss \<subseteq> set (script_steps env is_main) \<Longrightarrow> \<forall>s\<in>set ss. grows s"
  using script_steps_grow by blast

lemma after_summary_grow: "\<forall>s\<in>set (after_summary env). grows s"
  by (auto dest!: after_summary_prints simp add: grows_print)

text \<open>Where the line of success stands in a history.\<close>

lemma summary_position:
  assumes "new_events w (snd (script env is_main w)) = pre @ (Print summary_line, oc) # post"
  shows "is_main \<and> fst (run_steps (before_summary env) w) = Returns () \<and>
     pre = new_events w (snd (run_steps (before_summary env) w)) \<and>
     (\<forall>ev\<in>set post. \<exists>l. fst ev = Print l)"
proof -
  have main: is_main
  proof (rule ccontr)
    assume "\<not> is_main"
    then have "script env is_main = run_steps (module_steps env)"
      by (simp add: script_is_steps script_steps_def)
    moreover have "\<forall>ev\<in>set (new_events w (snd (run_steps (module_steps env) w))).
        fst ev \<noteq> Print summary_line"
      by (rule all_events_run_steps [OF grows_subset [OF module_steps_subset] module_steps_quiet])
    ultimately show False using assms by auto
  qed
  let ?A = "run_steps (before_summary env)"
  let ?B = "print env summary_line # after_summary env"
  have gA: "grows ?A" by (rule grows_run_steps [OF grows_subset [OF before_summary_subset]])
  have gp: "grows (print env summary_line)" by (rule grows_print)
  have gB: "\<forall>s\<in>set ?B. grows s" using after_summary_grow by (simp add: grows_print)
  have quietA: "\<forall>ev\<in>set (new_events w (snd (?A w))). fst ev \<noteq> Print summary_line"
    by (rule all_events_run_steps [OF grows_subset [OF before_summary_subset] before_summary_quiet])
  have run: "script env is_main = run_steps (?A # ?B)"
    using main by (simp add: script_is_steps script_steps_split run_steps_append)
  have ret: "fst (?A w) = Returns ()"
  proof (rule ccontr)
    assume "fst (?A w) \<noteq> Returns ()"
    then have "script env is_main w = ?A w" by (simp add: run run_steps_Cons)
    then show False using quietA assms by auto
  qed
  let ?w1 = "snd (?A w)"
  let ?C = "run_steps (after_summary env)"
  have quietC: "\<forall>ev\<in>set (new_events v (snd (?C v))).
      fst ev \<noteq> Print summary_line \<and> (\<exists>l. fst ev = Print l)" for v
    by (rule all_events_run_steps [OF after_summary_grow after_summary_quiet])
  have evB: "\<exists>oc1 evC. new_events ?w1 (snd (run_steps ?B ?w1)) = (Print summary_line, oc1) # evC \<and>
      (\<forall>ev\<in>set evC. fst ev \<noteq> Print summary_line \<and> (\<exists>l. fst ev = Print l))"
  proof (cases "fst (print env summary_line ?w1) = Returns ()")
    case True
    have "new_events ?w1 (snd (run_steps ?B ?w1)) =
        new_events ?w1 (snd (print env summary_line ?w1)) @
        new_events (snd (print env summary_line ?w1)) (snd (?C (snd (print env summary_line ?w1))))"
      using events_continue [OF gp after_summary_grow [of env], of ?w1]
      by (simp add: run_steps_continue [of "print env summary_line" ?w1 "after_summary env", OF True])
    then show ?thesis using quietC by (simp add: events_print)
  next
    case False
    then show ?thesis by (simp add: run_steps_Cons events_print)
  qed
  then obtain oc1 evC where
    evB: "new_events ?w1 (snd (run_steps ?B ?w1)) = (Print summary_line, oc1) # evC"
    and evC: "\<forall>ev\<in>set evC. fst ev \<noteq> Print summary_line \<and> (\<exists>l. fst ev = Print l)"
    by blast
  have "new_events w (snd (script env is_main w)) =
      new_events w ?w1 @ new_events ?w1 (snd (run_steps ?B ?w1))"
    using events_continue [OF gA gB, of w] by (simp add: run run_steps_continue [of ?A w ?B, OF ret])
  then have "new_events w ?w1 @ (Print summary_line, oc1) # evC =
      pre @ (Print summary_line, oc) # post"
    using assms evB by simp
  from unique_split [OF this, of "\<lambda>ev. fst ev = Print summary_line"] quietA evC
  have "pre = new_events w ?w1" and "post = evC" by auto
  then show ?thesis using main ret evC by simp
qed


lemma saved_none: "\<forall>ev\<in>set evs. \<forall>m p. fst ev \<noteq> Save m p \<Longrightarrow> saved evs = []"
  by (induction evs rule: saved.induct) auto

lemma saved_discard_create:
  assumes "fst (discard (create f env) w) = Returns ()"
  shows "saved (new_events w (snd (create f env w))) = [path_of f]"
proof -
  from assms obtain m where "fst (create_from f env w) = Returns m"
    by (auto simp add: fst_discard_Returns create_is_create_from)
  from create_returns [OF this] show ?thesis
    by (auto simp add: create_is_create_from new_events_def)
qed

lemma before_summary_grow: "\<forall>s\<in>set (before_summary env). grows s"
  by (rule grows_subset [OF before_summary_subset])

lemma before_summary_ended:
  "\<forall>s\<in>set (before_summary env). \<forall>w.
     ended (new_events w (snd (s w))) (outcome_of (fst (s w)))"
  using script_steps_ended [of env True] before_summary_subset [of env] by blast

lemma before_summary_all_Ok:
  assumes "fst (run_steps (before_summary env) w) = Returns ()"
  shows "\<forall>ev\<in>set (new_events w (snd (run_steps (before_summary env) w))). snd ev = Ok"
  using ended_run_steps [OF before_summary_grow [of env] before_summary_ended [of env], of w] assms
  by (simp add: ended_Ok)

lemma before_summary_invoked:
  assumes "fst (run_steps (before_summary env) w) = Returns ()"
  shows "invoked (new_events w (snd (run_steps (before_summary env) w))) =
     map name_of driver_order"
proof -
  have "invoked (new_events w (snd (run_steps (before_summary env) w))) =
      concat ([[], [], [], [], [], [], []] @ [[], []] @
        map (\<lambda>f. [name_of f]) driver_order @ [[]])"
  proof (rule obs_run_steps_returns [OF invoked_append _ before_summary_grow _ _ assms])
    show "invoked [] = []" by simp
    show "\<forall>(s, c)\<in>set (zip (before_summary env)
         ([[], [], [], [], [], [], []] @ [[], []] @
          map (\<lambda>f. [name_of f]) driver_order @ [[]])).
       \<forall>w. fst (s w) = Returns () \<longrightarrow> invoked (new_events w (snd (s w))) = c"
      by (simp add: before_summary_def module_steps_def header_steps_def driver_order_def
          events_print events_import events_makedirs events_discard invoked_create
          del: create.simps)
    show "length ([[], [], [], [], [], [], []] @ [[], []] @
        map (\<lambda>f. [name_of f]) driver_order @ [[]]) = length (before_summary env)"
      by (simp add: before_summary_def module_steps_def header_steps_def driver_order_def)
  qed
  then show ?thesis by (simp add: driver_order_def)
qed

lemma before_summary_saved:
  assumes "fst (run_steps (before_summary env) w) = Returns ()"
  shows "saved (new_events w (snd (run_steps (before_summary env) w))) =
     map path_of driver_order"
proof -
  have "saved (new_events w (snd (run_steps (before_summary env) w))) =
      concat ([[], [], [], [], [], [], []] @ [[], []] @
        map (\<lambda>f. [path_of f]) driver_order @ [[]])"
  proof (rule obs_run_steps_returns [OF saved_append _ before_summary_grow _ _ assms])
    show "saved [] = []" by simp
    show "\<forall>(s, c)\<in>set (zip (before_summary env)
         ([[], [], [], [], [], [], []] @ [[], []] @
          map (\<lambda>f. [path_of f]) driver_order @ [[]])).
       \<forall>w. fst (s w) = Returns () \<longrightarrow> saved (new_events w (snd (s w))) = c"
      by (simp add: before_summary_def module_steps_def header_steps_def driver_order_def
          events_print events_import events_makedirs events_discard saved_discard_create
          del: create.simps)
    show "length ([[], [], [], [], [], [], []] @ [[], []] @
        map (\<lambda>f. [path_of f]) driver_order @ [[]]) = length (before_summary env)"
      by (simp add: before_summary_def module_steps_def header_steps_def driver_order_def)
  qed
  then show ?thesis by (simp add: driver_order_def)
qed

section \<open>The file system\<close>

text \<open>Something a statement establishes when it returns, and every statement keeps.\<close>

lemma kept_run_steps:
  assumes "\<forall>t\<in>set ss. \<forall>w. Q w \<longrightarrow> Q (snd (t w))" and "Q w"
  shows "Q (snd (run_steps ss w))"
  using assms
proof (induction ss arbitrary: w)
  case Nil
  then show ?case by (simp add: run_steps_Nil)
next
  case (Cons t ss)
  have step: "Q (snd (t w))" using Cons.prems by simp
  have "Q (snd (run_steps ss (snd (t w))))"
  proof (rule Cons.IH)
    show "\<forall>t\<in>set ss. \<forall>w. Q w \<longrightarrow> Q (snd (t w))" using Cons.prems(1) by simp
    show "Q (snd (t w))" by (rule step)
  qed
  then show ?case using step by (simp add: run_steps_Cons)
qed

lemma established_run_steps:
  assumes "fst (run_steps ss w) = Returns ()" and "s \<in> set ss"
    and est: "\<And>w. fst (s w) = Returns () \<Longrightarrow> Q (snd (s w))"
    and kept: "\<And>t w. t \<in> set ss \<Longrightarrow> Q w \<Longrightarrow> Q (snd (t w))"
  shows "Q (snd (run_steps ss w))"
  using assms(1,2) kept
proof (induction ss arbitrary: w)
  case Nil
  then show ?case by simp
next
  case (Cons t ss)
  have ret: "fst (t w) = Returns ()"
  proof (rule ccontr)
    assume "fst (t w) \<noteq> Returns ()"
    then have "run_steps (t # ss) w = t w" by (simp add: run_steps_Cons)
    then show False using Cons.prems(1) \<open>fst (t w) \<noteq> Returns ()\<close> by simp
  qed
  then have run: "run_steps (t # ss) w = run_steps ss (snd (t w))"
    by (simp add: run_steps_Cons)
  have kept': "Q (snd (u v))" if "u \<in> set ss" and "Q v" for u v
    using that Cons.prems(3) [of u v] by simp
  have "Q (snd (run_steps ss (snd (t w))))"
  proof (cases "s = t")
    case True
    have "Q (snd (t w))" using est [of w] ret True by simp
    with _ show ?thesis
    proof (rule kept_run_steps)
      show "\<forall>t\<in>set ss. \<forall>w. Q w \<longrightarrow> Q (snd (t w))" using kept' by blast
    qed
  next
    case False
    then have mem: "s \<in> set ss" using Cons.prems(2) by simp
    have ret': "fst (run_steps ss (snd (t w))) = Returns ()"
      using Cons.prems(1) run by simp
    show ?thesis
    proof (rule Cons.IH [OF ret' mem])
      show "Q (snd (u v))" if "u \<in> set ss" and "Q v" for u v
        using that by (rule kept')
    qed
  qed
  then show ?case using run by simp
qed

lemma path_not_dir: "path_of f \<noteq> ''CoreMLModels''"
  by (simp add: path_of_def)

lemma dir_not_path: "''CoreMLModels'' \<noteq> path_of f"
  by (simp add: path_of_def)

lemma create_files': "p \<noteq> path_of f \<Longrightarrow> files (snd (create f env w)) p = files w p"
  by (simp add: create_is_create_from create_files)

text \<open>No statement touches a path other than the directory and the seven files.\<close>

lemma script_steps_frame:
  assumes "p \<noteq> ''CoreMLModels''" and "\<forall>f. p \<noteq> path_of f"
  shows "\<forall>s\<in>set (script_steps env is_main). \<forall>w. files (snd (s w)) p = files w p"
  using assms
  by (auto dest!: script_steps_kinds
      simp add: print_files import_files makedirs_files snd_discard create_files')

lemma script_frame:
  assumes "p \<noteq> ''CoreMLModels''" and "\<forall>f. p \<noteq> path_of f"
  shows "files (snd (script env is_main w)) p = files w p"
proof -
  have "files (snd (run_steps (script_steps env is_main) w)) p = files w p"
    by (rule related_run_steps [where R = "\<lambda>w w'. files w' p = files w p"])
       (use script_steps_frame [OF assms] in auto)
  then show ?thesis by (simp add: script_is_steps)
qed

text \<open>The directory, once there, stays; a model file, once there, is a model file.\<close>

lemma makedirs_keeps_dir:
  "isdir w ''CoreMLModels'' \<Longrightarrow> isdir (snd (os_makedirs env n b w)) ''CoreMLModels''"
  by (auto simp add: call_defs isdir_def split: prod.splits reply.splits error.splits if_splits)

lemma script_steps_keep_dir:
  "\<forall>s\<in>set (script_steps env is_main). \<forall>w.
     isdir w ''CoreMLModels'' \<longrightarrow> isdir (snd (s w)) ''CoreMLModels''"
  by (auto dest!: script_steps_kinds
      simp add: isdir_def print_files import_files snd_discard create_files' dir_not_path
        makedirs_keeps_dir [unfolded isdir_def])

lemma create_files_cases:
  "files (snd (create_from f env w)) = files w \<or>
   (\<exists>m. files (snd (create_from f env w)) = (files w)(path_of f \<mapsto> ModelFile m))"
  by (auto simp add: create_from_def call_defs Let_def split: prod.splits reply.splits)

lemma create_keeps_model:
  "holds_model w p \<Longrightarrow> holds_model (snd (create_from f env w)) p"
  using create_files_cases [of f env w] by (auto simp add: holds_model_def)

lemma makedirs_keeps_model:
  "holds_model w p \<Longrightarrow> holds_model (snd (os_makedirs env n b w)) p"
  by (auto simp add: holds_model_def call_defs split: prod.splits reply.splits error.splits if_splits)

lemma script_steps_keep_model:
  "\<forall>s\<in>set (script_steps env is_main). \<forall>w. holds_model w p \<longrightarrow> holds_model (snd (s w)) p"
  by (auto dest!: script_steps_kinds
      simp add: snd_discard create_is_create_from create_keeps_model makedirs_keeps_model)
     (simp_all add: holds_model_def print_files import_files)

lemma create_sets_model:
  "fst (discard (create f env) w) = Returns () \<Longrightarrow>
     holds_model (snd (discard (create f env) w)) (path_of f)"
proof -
  assume "fst (discard (create f env) w) = Returns ()"
  then obtain m where "fst (create_from f env w) = Returns m"
    by (auto simp add: fst_discard_Returns create_is_create_from)
  from create_returns [OF this] show ?thesis
    by (auto simp add: holds_model_def snd_discard create_is_create_from)
qed

lemma create_in_main: "discard (create f env) \<in> set (script_steps env True)"
  by (cases f) (simp_all add: script_steps_def main_steps_def driver_order_def del: create.simps)

lemma makedirs_in_script: "os_makedirs env ''CoreMLModels'' True \<in> set (script_steps env is_main)"
  by (simp add: script_steps_def module_steps_def)

lemma script_returns_files:
  assumes "fst (script env True w) = Returns ()"
  shows "isdir (snd (script env True w)) ''CoreMLModels''"
    and "holds_model (snd (script env True w)) (path_of f)"
proof -
  have ret: "fst (run_steps (script_steps env True) w) = Returns ()"
    using assms by (simp add: script_is_steps)
  have "isdir (snd (run_steps (script_steps env True) w)) ''CoreMLModels''"
  proof (rule established_run_steps [OF ret makedirs_in_script])
    show "isdir (snd (os_makedirs env ''CoreMLModels'' True v)) ''CoreMLModels''"
      if "fst (os_makedirs env ''CoreMLModels'' True v) = Returns ()" for v
      using that by (rule makedirs_Returns)
    show "isdir (snd (t v)) ''CoreMLModels''"
      if "t \<in> set (script_steps env True)" and "isdir v ''CoreMLModels''" for t v
      using that script_steps_keep_dir [of env True] by blast
  qed
  then show "isdir (snd (script env True w)) ''CoreMLModels''" by (simp add: script_is_steps)
  have "holds_model (snd (run_steps (script_steps env True) w)) (path_of f)"
  proof (rule established_run_steps [OF ret create_in_main [of f env]])
    show "holds_model (snd (discard (create f env) v)) (path_of f)"
      if "fst (discard (create f env) v) = Returns ()" for v
      using that by (rule create_sets_model)
    show "holds_model (snd (t v)) (path_of f)"
      if "t \<in> set (script_steps env True)" and "holds_model v (path_of f)" for t v
      using that script_steps_keep_model [of env True "path_of f"] by blast
  qed
  then show "holds_model (snd (script env True w)) (path_of f)" by (simp add: script_is_steps)
qed

lemma made_mem: "n \<in> set (made evs) \<Longrightarrow> \<exists>b oc. (Makedirs n b, oc) \<in> set evs"
  by (induction evs rule: made.induct) auto

lemma saved_mem: "p \<in> set (saved evs) \<Longrightarrow> \<exists>m oc. (Save m p, oc) \<in> set evs"
  by (induction evs rule: saved.induct) auto

lemma path_in_driver_order: "path_of f \<in> set (map path_of driver_order)"
  by (cases f) (simp_all add: driver_order_def)

lemma create_events_paths:
  assumes "ev \<in> set (new_events w (snd (create f env w)))"
  shows "(\<forall>n b. fst ev \<noteq> Makedirs n b) \<and> (\<forall>m p. fst ev = Save m p \<longrightarrow> p = path_of f)"
proof -
  from events_create [of w f env] obtain evs where
    "new_events w (snd (create f env w)) =
       evs @ [(Invoke (name_of f), outcome_of (fst (create f env w)))]"
    "\<forall>ev\<in>set evs. \<forall>m p. fst ev = Save m p \<longrightarrow> p = path_of f"
    "\<forall>ev\<in>set evs. \<forall>n b. fst ev \<noteq> Makedirs n b"
    by blast
  then show ?thesis using assms by auto
qed

lemma script_steps_paths:
  "\<forall>s\<in>set (script_steps env is_main). \<forall>w. \<forall>ev\<in>set (new_events w (snd (s w))).
     (\<forall>n b. fst ev = Makedirs n b \<longrightarrow> n = ''CoreMLModels'') \<and>
     (\<forall>m p. fst ev = Save m p \<longrightarrow> p \<in> set (map path_of driver_order))"
proof (intro ballI allI)
  fix s w ev
  assume s: "s \<in> set (script_steps env is_main)" and ev: "ev \<in> set (new_events w (snd (s w)))"
  from script_steps_kinds [OF s]
  show "(\<forall>n b. fst ev = Makedirs n b \<longrightarrow> n = ''CoreMLModels'') \<and>
     (\<forall>m p. fst ev = Save m p \<longrightarrow> p \<in> set (map path_of driver_order))"
  proof (elim disjE exE)
    fix n assume "s = import_module env n"
    then show ?thesis using ev by (simp add: events_import)
  next
    assume "s = os_makedirs env ''CoreMLModels'' True"
    then show ?thesis using ev by (simp add: events_makedirs)
  next
    fix l assume "s = print env l"
    then show ?thesis using ev by (simp add: events_print)
  next
    fix f assume "s = discard (create f env)"
    then have "ev \<in> set (new_events w (snd (create f env w)))" using ev by (simp add: snd_discard)
    from create_events_paths [OF this]
    have a: "\<forall>n b. fst ev \<noteq> Makedirs n b"
      and b: "\<forall>m p. fst ev = Save m p \<longrightarrow> p = path_of f"
      by blast+
    show ?thesis
    proof (intro conjI allI impI)
      fix n b assume "fst ev = Makedirs n b"
      with a show "n = ''CoreMLModels''" by blast
    next
      fix m p assume "fst ev = Save m p"
      with b have "p = path_of f" by blast
      then show "p \<in> set (map path_of driver_order)" by (simp only: path_in_driver_order)
    qed
  qed
qed

lemma script_paths:
  "set (made (new_events w (snd (script env is_main w)))) \<subseteq> {''CoreMLModels''} \<and>
   set (saved (new_events w (snd (script env is_main w)))) \<subseteq> set (map path_of driver_order)"
proof -
  have all: "\<forall>ev\<in>set (new_events w (snd (run_steps (script_steps env is_main) w))).
     (\<forall>n b. fst ev = Makedirs n b \<longrightarrow> n = ''CoreMLModels'') \<and>
     (\<forall>m p. fst ev = Save m p \<longrightarrow> p \<in> set (map path_of driver_order))"
    by (rule all_events_run_steps [OF script_steps_grow script_steps_paths])
  show ?thesis
  proof (intro conjI subsetI)
    fix n assume "n \<in> set (made (new_events w (snd (script env is_main w))))"
    from made_mem [OF this] all show "n \<in> {''CoreMLModels''}"
      by (fastforce simp add: script_is_steps)
  next
    fix p assume "p \<in> set (saved (new_events w (snd (script env is_main w))))"
    from saved_mem [OF this] all show "p \<in> set (map path_of driver_order)"
      by (fastforce simp add: script_is_steps)
  qed
qed

lemma paths_literal:
  "map path_of driver_order =
     [''CoreMLModels/ECG_Arrhythmia.mlmodel'', ''CoreMLModels/Troponin_Detection.mlmodel'',
      ''CoreMLModels/BP_Estimation.mlmodel'', ''CoreMLModels/Fall_Detection.mlmodel'',
      ''CoreMLModels/Activity_Recognition.mlmodel'', ''CoreMLModels/Signal_Quality.mlmodel'',
      ''CoreMLModels/Glucose_Prediction.mlmodel'']"
  by (simp add: driver_order_def path_of_def)

section \<open>The output directory\<close>

lemma import_returns:
  assumes "\<forall>n l. fst (import_reply env n l) = Returns ()"
  shows "fst (import_module env n w) = Returns ()"
proof -
  have "fst (import_reply env n (lib w)) = Returns ()" using assms by blast
  then show ?thesis by (auto simp add: call_defs split: prod.splits)
qed

lemma run_steps_single: "run_steps [s] = s"
  by (simp add: run_steps.simps pbind_preturn)

text \<open>Statements that all return while something holds of the world.\<close>

lemma returning_run_steps:
  assumes "\<And>s v. s \<in> set ss \<Longrightarrow> I v \<Longrightarrow> fst (s v) = Returns () \<and> I (snd (s v))"
    and "I w"
  shows "fst (run_steps ss w) = Returns () \<and> I (snd (run_steps ss w))"
  using assms
proof (induction ss arbitrary: w)
  case Nil
  then show ?case by (simp add: run_steps_Nil)
next
  case (Cons t ss)
  have t: "fst (t w) = Returns ()" "I (snd (t w))"
    using Cons.prems(1) [of t w] Cons.prems(2) by simp_all
  have "fst (run_steps ss (snd (t w))) = Returns () \<and> I (snd (run_steps ss (snd (t w))))"
  proof (rule Cons.IH)
    show "fst (s v) = Returns () \<and> I (snd (s v))" if "s \<in> set ss" and "I v" for s v
      using Cons.prems(1) [of s v] that by simp
    show "I (snd (t w))" by (rule t(2))
  qed
  then show ?case using t(1) by (simp add: run_steps_Cons)
qed

text \<open>Calls that end well while something holds of the world.\<close>

lemma all_events_while:
  assumes grow: "\<forall>s\<in>set ss. grows s"
    and step: "\<And>s v. s \<in> set ss \<Longrightarrow> I v \<Longrightarrow>
       I (snd (s v)) \<and> (\<forall>ev\<in>set (new_events v (snd (s v))). P ev)"
    and "I w"
  shows "I (snd (run_steps ss w)) \<and> (\<forall>ev\<in>set (new_events w (snd (run_steps ss w))). P ev)"
  using assms
proof (induction ss arbitrary: w)
  case Nil
  then show ?case by (simp add: run_steps_Nil)
next
  case (Cons t ss)
  have t: "I (snd (t w))" "\<forall>ev\<in>set (new_events w (snd (t w))). P ev"
    using Cons.prems(2) [of t w] Cons.prems(3) by simp_all
  have gt: "grows t" and gss: "\<forall>s\<in>set ss. grows s" using Cons.prems(1) by simp_all
  have rest: "I (snd (run_steps ss (snd (t w)))) \<and>
      (\<forall>ev\<in>set (new_events (snd (t w)) (snd (run_steps ss (snd (t w))))). P ev)"
  proof (rule Cons.IH [OF gss])
    show "I (snd (s v)) \<and> (\<forall>ev\<in>set (new_events v (snd (s v))). P ev)"
      if "s \<in> set ss" and "I v" for s v
      using Cons.prems(2) [of s v] that by simp
    show "I (snd (t w))" by (rule t(1))
  qed
  show ?case
  proof (cases "fst (t w) = Returns ()")
    case True
    then show ?thesis using t rest events_continue [OF gt gss, of w]
      by (auto simp add: run_steps_Cons)
  next
    case False
    then show ?thesis using t by (simp add: run_steps_Cons)
  qed
qed

lemma makedirs_event_Ok:
  assumes "isdir v ''CoreMLModels''" and "s \<in> set (script_steps env is_main)"
  shows "isdir (snd (s v)) ''CoreMLModels'' \<and>
     (\<forall>ev\<in>set (new_events v (snd (s v))).
        \<forall>oc. ev = (Makedirs ''CoreMLModels'' True, oc) \<longrightarrow> oc = Ok)"
proof -
  have keep: "isdir (snd (s v)) ''CoreMLModels''"
    using script_steps_keep_dir [of env is_main] assms by blast
  from script_steps_kinds [OF assms(2)]
  have "\<forall>ev\<in>set (new_events v (snd (s v))).
        \<forall>oc. ev = (Makedirs ''CoreMLModels'' True, oc) \<longrightarrow> oc = Ok"
  proof (elim disjE exE)
    fix n assume "s = import_module env n"
    then show ?thesis by (simp add: events_import)
  next
    assume "s = os_makedirs env ''CoreMLModels'' True"
    then show ?thesis using makedirs_exists [OF assms(1), of env] by (simp add: events_makedirs)
  next
    fix l assume "s = print env l"
    then show ?thesis by (simp add: events_print)
  next
    fix f assume s: "s = discard (create f env)"
    show ?thesis
    proof (intro ballI allI impI)
      fix ev oc
      assume "ev \<in> set (new_events v (snd (s v)))" and ev: "ev = (Makedirs ''CoreMLModels'' True, oc)"
      then have "ev \<in> set (new_events v (snd (create f env v)))" using s by (simp add: snd_discard)
      from create_events_paths [OF this] have "\<forall>n b. fst ev \<noteq> Makedirs n b" by blast
      with ev show "oc = Ok" by (metis fst_conv)
    qed
  qed
  with keep show ?thesis by simp
qed

lemma module_steps_return:
  fixes env :: "('k, 'm, 'l) env" and w :: "('k, 'm, 'l) world"
  assumes imp: "\<forall>n l. fst (import_reply env n l) = Returns ()"
    and dir: "isdir w ''CoreMLModels''"
  shows "fst (run_steps (module_steps env) w) = Returns () \<and>
     files (snd (run_steps (module_steps env) w)) = files w"
proof (rule returning_run_steps [where I = "\<lambda>v. files v = files w"])
  fix s and v :: "('k, 'm, 'l) world"
  assume s: "s \<in> set (module_steps env)" and v: "files v = files w"
  then have "(\<exists>n. s = import_module env n) \<or> s = os_makedirs env ''CoreMLModels'' True"
    by (auto simp add: module_steps_def)
  then show "fst (s v) = Returns () \<and> files (snd (s v)) = files w"
  proof (elim disjE exE)
    fix n assume "s = import_module env n"
    then show ?thesis using import_returns [OF imp] v by (simp add: import_files)
  next
    assume s: "s = os_makedirs env ''CoreMLModels'' True"
    have "isdir v ''CoreMLModels''" using dir v by (simp add: isdir_def)
    from makedirs_exists [OF this, of env] show ?thesis using s v by simp
  qed
qed simp

lemma made_module_steps:
  assumes "fst (run_steps (module_steps env) w) = Returns ()"
  shows "made (new_events w (snd (run_steps (module_steps env) w))) = [''CoreMLModels'']"
proof -
  have "made (new_events w (snd (run_steps (module_steps env) w))) =
      concat [[], [], [], [], [], [], [''CoreMLModels'']]"
  proof (rule obs_run_steps_returns [OF made_append _ _ _ _ assms])
    show "made [] = []" by simp
    show "\<forall>s\<in>set (module_steps env). grows s"
      by (rule grows_subset [OF module_steps_subset [of env False]])
    show "\<forall>(s, c)\<in>set (zip (module_steps env) [[], [], [], [], [], [], [''CoreMLModels'']]).
       \<forall>w. fst (s w) = Returns () \<longrightarrow> made (new_events w (snd (s w))) = c"
      by (simp add: module_steps_def events_import events_makedirs)
    show "length [[], [], [], [], [], [], [''CoreMLModels'']] = length (module_steps env)"
      by (simp add: module_steps_def)
  qed
  then show ?thesis by simp
qed

section \<open>The seven functions in any order\<close>

lemma file_of_inj: "hd (file_of f) = hd (file_of g) \<Longrightarrow> f = g"
  by (cases f; cases g) simp_all

lemma path_of_inj: "path_of f = path_of g \<Longrightarrow> f = g"
  by (rule file_of_inj) (simp add: path_of_def)






section \<open>Runs in which the libraries return\<close>

lemma returned_iff: "returned r \<longleftrightarrow> (\<exists>a. r = Returns a)"
  by (cases r) simp_all

text \<open>The call returns when the five replies do.\<close>

lemma create_when_replies:
  assumes "Sequential_reply env (layers_of f) (lib w) = (Returns k, l1)"
    and "compile_reply env k ''adam'' (loss_of f) l1 = (Returns (), l2)"
    and "convert_reply env k (inputs_of f) (outputs_of f) iOS15 ComputeUnit_ALL l2 = (Returns c, l3)"
    and "save_reply env (c\<lparr>author := ''LifeLens Medical AI'', short_description := description_of f,
           version := ''1.0.0''\<rparr>) (path_of f) (files w) l3 = Returns ()"
    and "print_reply env (message_of f) (stdout w) = Returns ()"
  shows "create_from f env w =
     (Returns (c\<lparr>author := ''LifeLens Medical AI'', short_description := description_of f,
           version := ''1.0.0''\<rparr>),
      w\<lparr>files := (files w)(path_of f \<mapsto> ModelFile
              (c\<lparr>author := ''LifeLens Medical AI'', short_description := description_of f,
                 version := ''1.0.0''\<rparr>)),
        stdout := stdout w @ [message_of f],
        lib := l3,
        trace := trace w @
          [(Sequential (layers_of f), Ok),
           (Compile k ''adam'' (loss_of f), Ok),
           (Convert k (inputs_of f) (outputs_of f) iOS15 ComputeUnit_ALL, Ok),
           (Save (c\<lparr>author := ''LifeLens Medical AI'', short_description := description_of f,
                 version := ''1.0.0''\<rparr>) (path_of f), Ok),
           (Print (message_of f), Ok),
           (Invoke (name_of f), Ok)]\<rparr>)"
  using assms by (simp add: create_from_def call_defs Let_def)

lemma create_returns_replies:
  assumes "create_from f env w = (Returns m, w')"
  shows "\<exists>k c l1 l2 l3.
     Sequential_reply env (layers_of f) (lib w) = (Returns k, l1) \<and>
     compile_reply env k ''adam'' (loss_of f) l1 = (Returns (), l2) \<and>
     convert_reply env k (inputs_of f) (outputs_of f) iOS15 ComputeUnit_ALL l2 = (Returns c, l3) \<and>
     save_reply env (c\<lparr>author := ''LifeLens Medical AI'', short_description := description_of f,
           version := ''1.0.0''\<rparr>) (path_of f) (files w) l3 = Returns () \<and>
     print_reply env (message_of f) (stdout w) = Returns () \<and>
     m = c\<lparr>author := ''LifeLens Medical AI'', short_description := description_of f,
           version := ''1.0.0''\<rparr>"
  using assms
  by (auto simp add: create_from_def call_defs Let_def split: prod.splits reply.splits)

lemma create_returns_if_libraries:
  assumes "libraries_return env" and "isdir w ''CoreMLModels''"
  shows "\<exists>m. fst (create f env w) = Returns m"
proof -
  obtain k l1 where k: "Sequential_reply env (layers_of f) (lib w) = (Returns k, l1)"
    using assms(1) by (metis libraries_return_def returned_iff prod.collapse)
  have "fst (compile_reply env k ''adam'' (loss_of f) l1) = Returns ()"
    using assms(1) by (simp add: libraries_return_def)
  then obtain l2 where l2: "compile_reply env k ''adam'' (loss_of f) l1 = (Returns (), l2)"
    by (metis prod.collapse)
  obtain c l3 where c:
    "convert_reply env k (inputs_of f) (outputs_of f) iOS15 ComputeUnit_ALL l2 = (Returns c, l3)"
    using assms(1) by (metis libraries_return_def returned_iff prod.collapse)
  have s: "save_reply env (c\<lparr>author := ''LifeLens Medical AI'',
        short_description := description_of f, version := ''1.0.0''\<rparr>) (path_of f) (files w) l3 =
      Returns ()"
    using assms by (simp add: libraries_return_def isdir_def)
  have p: "print_reply env (message_of f) (stdout w) = Returns ()"
    using assms(1) by (simp add: libraries_return_def)
  from create_when_replies [OF k l2 c s p] show ?thesis
    by (simp add: create_is_create_from)
qed

lemma print_returns_if_libraries: "libraries_return env \<Longrightarrow> fst (print env s w) = Returns ()"
  by (simp add: libraries_return_def call_defs)

lemma import_returns_if_libraries:
  "libraries_return env \<Longrightarrow> fst (import_module env n w) = Returns ()"
  by (rule import_returns) (simp add: libraries_return_def)

lemma makedirs_returns_if_libraries:
  assumes "libraries_return env"
    and "files w ''CoreMLModels'' = None \<or> files w ''CoreMLModels'' = Some Dir"
  shows "fst (os_makedirs env ''CoreMLModels'' True w) = Returns ()"
  using assms
  by (auto simp add: libraries_return_def call_defs isdir_def)

lemma module_steps_return_if_libraries:
  fixes env :: "('k, 'm, 'l) env" and w :: "('k, 'm, 'l) world"
  assumes lib: "libraries_return env"
    and dir: "files w ''CoreMLModels'' = None \<or> files w ''CoreMLModels'' = Some Dir"
  shows "fst (run_steps (module_steps env) w) = Returns () \<and>
     (files (snd (run_steps (module_steps env) w)) ''CoreMLModels'' = None \<or>
      files (snd (run_steps (module_steps env) w)) ''CoreMLModels'' = Some Dir)"
proof (rule returning_run_steps
    [where I = "\<lambda>v. files v ''CoreMLModels'' = None \<or> files v ''CoreMLModels'' = Some Dir"])
  fix s and v :: "('k, 'm, 'l) world"
  assume s: "s \<in> set (module_steps env)"
    and v: "files v ''CoreMLModels'' = None \<or> files v ''CoreMLModels'' = Some Dir"
  from s have "(\<exists>n. s = import_module env n) \<or> s = os_makedirs env ''CoreMLModels'' True"
    by (auto simp add: module_steps_def)
  then show "fst (s v) = Returns () \<and>
     (files (snd (s v)) ''CoreMLModels'' = None \<or> files (snd (s v)) ''CoreMLModels'' = Some Dir)"
  proof (elim disjE exE)
    fix n assume "s = import_module env n"
    then show ?thesis using import_returns_if_libraries [OF lib] v by (simp add: import_files)
  next
    assume s: "s = os_makedirs env ''CoreMLModels'' True"
    have ret: "fst (os_makedirs env ''CoreMLModels'' True v) = Returns ()"
      by (rule makedirs_returns_if_libraries [OF lib v])
    from makedirs_Returns [OF ret] show ?thesis using s ret by (simp add: isdir_def)
  qed
qed (rule dir)

lemma main_steps_return_if_libraries:
  fixes env :: "('k, 'm, 'l) env" and w :: "('k, 'm, 'l) world"
  assumes lib: "libraries_return env" and dir: "isdir w ''CoreMLModels''"
  shows "fst (run_steps (main_steps env) w) = Returns () \<and>
     isdir (snd (run_steps (main_steps env) w)) ''CoreMLModels''"
proof (rule returning_run_steps [where I = "\<lambda>v. isdir v ''CoreMLModels''"])
  fix s and v :: "('k, 'm, 'l) world"
  assume s: "s \<in> set (main_steps env)" and v: "isdir v ''CoreMLModels''"
  from s have s': "s \<in> set (script_steps env True)" by (simp add: script_steps_def)
  have keep: "isdir (snd (s v)) ''CoreMLModels''"
    using script_steps_keep_dir [of env True] s' v by blast
  from s have "(\<exists>l. s = print env l) \<or> (\<exists>f. s = discard (create f env))"
    by (auto simp add: main_steps_def header_steps_def footer_steps_def)
  then have "fst (s v) = Returns ()"
  proof (elim disjE exE)
    fix l assume "s = print env l"
    then show ?thesis using print_returns_if_libraries [OF lib] by simp
  next
    fix f assume "s = discard (create f env)"
    then show ?thesis using create_returns_if_libraries [OF lib v, of f]
      by (simp add: fst_discard_Returns del: create.simps)
  qed
  with keep show "fst (s v) = Returns () \<and> isdir (snd (s v)) ''CoreMLModels''" by simp
qed (rule dir)

lemma script_returns_if_libraries:
  fixes env :: "('k, 'm, 'l) env" and w :: "('k, 'm, 'l) world"
  assumes lib: "libraries_return env"
    and dir: "files w ''CoreMLModels'' = None \<or> files w ''CoreMLModels'' = Some Dir"
  shows "fst (script env True w) = Returns ()"
proof -
  let ?A = "run_steps (module_steps env)"
  have retA: "fst (?A w) = Returns ()"
    using module_steps_return_if_libraries [OF lib dir] by simp
  have "fst (run_steps (script_steps env False) w) = Returns ()"
    using retA by (simp add: script_steps_def)
  then have "isdir (snd (run_steps (script_steps env False) w)) ''CoreMLModels''"
  proof (rule established_run_steps [OF _ makedirs_in_script])
    show "isdir (snd (os_makedirs env ''CoreMLModels'' True v)) ''CoreMLModels''"
      if "fst (os_makedirs env ''CoreMLModels'' True v) = Returns ()" for v
      using that by (rule makedirs_Returns)
    show "isdir (snd (t v)) ''CoreMLModels''"
      if "t \<in> set (script_steps env False)" and "isdir v ''CoreMLModels''" for t v
      using that script_steps_keep_dir [of env False] by blast
  qed
  then have dirA: "isdir (snd (?A w)) ''CoreMLModels''" by (simp add: script_steps_def)
  have "script env True w = run_steps (?A # main_steps env) w"
    by (simp add: script_is_steps script_steps_def run_steps_append)
  also have "\<dots> = run_steps (main_steps env) (snd (?A w))"
    by (rule run_steps_continue [of ?A w, OF retA])
  finally show ?thesis
    using main_steps_return_if_libraries [OF lib dirA] by simp
qed


text \<open>The model files of a run that returns.\<close>

lemma create_files_cases_of:
  "files (snd (create_from f env w)) = files w \<or>
   (\<exists>m. files (snd (create_from f env w)) = (files w)(path_of f \<mapsto> ModelFile m) \<and>
      author m = ''LifeLens Medical AI'' \<and> short_description m = description_of f \<and>
      version m = ''1.0.0'')"
  by (auto simp add: create_from_def call_defs Let_def split: prod.splits reply.splits)

lemma create_keeps_model_of:
  assumes "holds_model_of w g"
  shows "holds_model_of (snd (create_from f env w)) g"
proof (cases "f = g")
  case True
  then show ?thesis
    using create_files_cases_of [of f env w] assms by (auto simp add: holds_model_of_def)
next
  case False
  then have "path_of g \<noteq> path_of f" by (auto dest: path_of_inj)
  then have "files (snd (create_from f env w)) (path_of g) = files w (path_of g)"
    by (rule create_files)
  then show ?thesis using assms by (simp add: holds_model_of_def)
qed

lemma makedirs_keeps_model_of:
  "holds_model_of w g \<Longrightarrow> holds_model_of (snd (os_makedirs env ''CoreMLModels'' True w)) g"
  by (simp add: holds_model_of_def makedirs_files path_not_dir)

lemma script_steps_keep_model_of:
  assumes "s \<in> set (script_steps env is_main)" and "holds_model_of w g"
  shows "holds_model_of (snd (s w)) g"
proof -
  from script_steps_kinds [OF assms(1)] show ?thesis
  proof (elim disjE exE)
    fix n assume "s = import_module env n"
    then show ?thesis using assms(2) by (simp add: holds_model_of_def import_files)
  next
    assume "s = os_makedirs env ''CoreMLModels'' True"
    then show ?thesis using assms(2) by (simp add: makedirs_keeps_model_of)
  next
    fix l assume "s = print env l"
    then show ?thesis using assms(2) by (simp add: holds_model_of_def print_files)
  next
    fix f assume "s = discard (create f env)"
    then show ?thesis using create_keeps_model_of [OF assms(2), of f env]
      by (simp add: snd_discard create_is_create_from)
  qed
qed

lemma create_sets_model_of:
  assumes "fst (discard (create f env) w) = Returns ()"
  shows "holds_model_of (snd (discard (create f env) w)) f"
proof -
  from assms obtain m where "fst (create_from f env w) = Returns m"
    by (auto simp add: fst_discard_Returns create_is_create_from)
  from create_returns [OF this] show ?thesis
    by (auto simp add: holds_model_of_def snd_discard create_is_create_from)
qed

lemma script_returns_models:
  assumes "fst (script env True w) = Returns ()"
  shows "holds_model_of (snd (script env True w)) g"
proof -
  have ret: "fst (run_steps (script_steps env True) w) = Returns ()"
    using assms by (simp add: script_is_steps)
  have "holds_model_of (snd (run_steps (script_steps env True) w)) g"
  proof (rule established_run_steps [OF ret create_in_main [of g env]])
    show "holds_model_of (snd (discard (create g env) v)) g"
      if "fst (discard (create g env) v) = Returns ()" for v
      using that by (rule create_sets_model_of)
    show "holds_model_of (snd (t v)) g"
      if "t \<in> set (script_steps env True)" and "holds_model_of v g" for t v
      using that by (rule script_steps_keep_model_of)
  qed
  then show ?thesis by (simp add: script_is_steps)
qed

section \<open>Two runs of the script\<close>

lemmas run_defs = create_arrhythmia_detection_model_def
  create_troponin_detection_model_def create_bp_estimation_model_def
  create_fall_detection_model_def create_activity_recognition_model_def
  create_signal_quality_model_def create_glucose_prediction_model_def
  call_defs plain_env_def full_disk_env_def ready_world_def empty_world_def Let_def

lemmas layer_defs = arrhythmia_layers_def troponin_layers_def bp_layers_def fall_layers_def
  activity_layers_def signal_quality_layers_def glucose_layers_def

lemmas script_defs = script_def main_block_def

text \<open>The run of the script as the main program in the plain environment returns.\<close>

lemma plain_run_returns: "fst (script plain_env True empty_world) = Returns ()"
  by (simp add: run_defs script_defs layer_defs)

text \<open>The same run reaches the line of success after 52 calls.\<close>

lemma plain_run_summary:
  "new_events empty_world (snd (script plain_env True empty_world)) =
     take 52 (new_events empty_world (snd (script plain_env True empty_world))) @
     (Print summary_line, Ok) #
     drop 53 (new_events empty_world (snd (script plain_env True empty_world)))"
  by (simp add: run_defs script_defs layer_defs new_events_def summary_line_def)

text \<open>On the full disk the run ends when the third model is saved, after 24 calls.\<close>

lemma full_disk_run_events:
  "new_events empty_world (snd (script full_disk_env True empty_world)) =
     take 24 (new_events empty_world (snd (script full_disk_env True empty_world))) @
     (Save \<lparr>core = 7, author = ''LifeLens Medical AI'',
         short_description = ''Blood Pressure Estimation ('' @ plus_minus @ ''5 mmHg accuracy)'',
         version = ''1.0.0''\<rparr> ''CoreMLModels/BP_Estimation.mlmodel'',
       Err (OSError ''No space left on device'')) #
     [(Invoke ''create_bp_estimation_model'', Err (OSError ''No space left on device''))]"
  by (simp add: run_defs script_defs layer_defs new_events_def)





section \<open>The claims\<close>

text \<open>
  C1. For every one of the seven functions: when the calls the function makes return
  (\<^verbatim>\<open>keras.Sequential\<close> on the layers of that function gives a model \<open>k\<close>, \<^verbatim>\<open>compile\<close> returns,
  \<^verbatim>\<open>ct.convert\<close> gives \<open>c\<close>, \<^verbatim>\<open>save\<close> and \<^verbatim>\<open>print\<close> return), the function returns: it has
  built the network, compiled it, converted it, set the author, the short description and
  the version on the converted model, saved that model at the path of the function, and it
  returns that model; its history is these calls in this order, with one \<open>Save\<close>, and the
  file system differs from the one before the call by that one file. And a call that
  returns is such a call: the five calls returned, and the same holds.
\<close>

theorem create_builds_converts_saves:
  "(Sequential_reply env (layers_of f) (lib w) = (Returns k, la) \<and>
    compile_reply env k ''adam'' (loss_of f) la = (Returns (), lb) \<and>
    convert_reply env k (inputs_of f) (outputs_of f) iOS15 ComputeUnit_ALL lb = (Returns c, lc) \<and>
    save_reply env
      (c\<lparr>author := ''LifeLens Medical AI'', short_description := description_of f,
         version := ''1.0.0''\<rparr>) (path_of f) (files w) lc = Returns () \<and>
    print_reply env (message_of f) (stdout w) = Returns () \<longrightarrow>
      fst (create f env w) =
        Returns (c\<lparr>author := ''LifeLens Medical AI'', short_description := description_of f,
                   version := ''1.0.0''\<rparr>) \<and>
      new_events w (snd (create f env w)) =
        [(Sequential (layers_of f), Ok),
         (Compile k ''adam'' (loss_of f), Ok),
         (Convert k (inputs_of f) (outputs_of f) iOS15 ComputeUnit_ALL, Ok),
         (Save (c\<lparr>author := ''LifeLens Medical AI'', short_description := description_of f,
                  version := ''1.0.0''\<rparr>) (path_of f), Ok),
         (Print (message_of f), Ok),
         (Invoke (name_of f), Ok)] \<and>
      files (snd (create f env w)) =
        (files w)(path_of f \<mapsto> ModelFile
          (c\<lparr>author := ''LifeLens Medical AI'', short_description := description_of f,
             version := ''1.0.0''\<rparr>))) \<and>
   (fst (create f env w) = Returns m \<longrightarrow>
      (\<exists>k c la lb lc.
         Sequential_reply env (layers_of f) (lib w) = (Returns k, la) \<and>
         compile_reply env k ''adam'' (loss_of f) la = (Returns (), lb) \<and>
         convert_reply env k (inputs_of f) (outputs_of f) iOS15 ComputeUnit_ALL lb =
           (Returns c, lc) \<and>
         save_reply env m (path_of f) (files w) lc = Returns () \<and>
         print_reply env (message_of f) (stdout w) = Returns () \<and>
         m = c\<lparr>author := ''LifeLens Medical AI'', short_description := description_of f,
               version := ''1.0.0''\<rparr> \<and>
         new_events w (snd (create f env w)) =
           [(Sequential (layers_of f), Ok),
            (Compile k ''adam'' (loss_of f), Ok),
            (Convert k (inputs_of f) (outputs_of f) iOS15 ComputeUnit_ALL, Ok),
            (Save m (path_of f), Ok),
            (Print (message_of f), Ok),
            (Invoke (name_of f), Ok)] \<and>
         files (snd (create f env w)) = (files w)(path_of f \<mapsto> ModelFile m)))"
proof (intro conjI impI)
  assume h: "Sequential_reply env (layers_of f) (lib w) = (Returns k, la) \<and>
    compile_reply env k ''adam'' (loss_of f) la = (Returns (), lb) \<and>
    convert_reply env k (inputs_of f) (outputs_of f) iOS15 ComputeUnit_ALL lb = (Returns c, lc) \<and>
    save_reply env
      (c\<lparr>author := ''LifeLens Medical AI'', short_description := description_of f,
         version := ''1.0.0''\<rparr>) (path_of f) (files w) lc = Returns () \<and>
    print_reply env (message_of f) (stdout w) = Returns ()"
  then have run: "create_from f env w =
     (Returns (c\<lparr>author := ''LifeLens Medical AI'', short_description := description_of f,
           version := ''1.0.0''\<rparr>),
      w\<lparr>files := (files w)(path_of f \<mapsto> ModelFile
              (c\<lparr>author := ''LifeLens Medical AI'', short_description := description_of f,
                 version := ''1.0.0''\<rparr>)),
        stdout := stdout w @ [message_of f],
        lib := lc,
        trace := trace w @
          [(Sequential (layers_of f), Ok),
           (Compile k ''adam'' (loss_of f), Ok),
           (Convert k (inputs_of f) (outputs_of f) iOS15 ComputeUnit_ALL, Ok),
           (Save (c\<lparr>author := ''LifeLens Medical AI'', short_description := description_of f,
                 version := ''1.0.0''\<rparr>) (path_of f), Ok),
           (Print (message_of f), Ok),
           (Invoke (name_of f), Ok)]\<rparr>)"
    by (intro create_when_replies [where k = k and ?l1.0 = la and ?l2.0 = lb and c = c
          and ?l3.0 = lc]) simp_all
  show "fst (create f env w) =
        Returns (c\<lparr>author := ''LifeLens Medical AI'', short_description := description_of f,
                   version := ''1.0.0''\<rparr>)"
    by (simp add: create_is_create_from run)
  show "new_events w (snd (create f env w)) =
        [(Sequential (layers_of f), Ok),
         (Compile k ''adam'' (loss_of f), Ok),
         (Convert k (inputs_of f) (outputs_of f) iOS15 ComputeUnit_ALL, Ok),
         (Save (c\<lparr>author := ''LifeLens Medical AI'', short_description := description_of f,
                  version := ''1.0.0''\<rparr>) (path_of f), Ok),
         (Print (message_of f), Ok),
         (Invoke (name_of f), Ok)]"
    by (simp add: create_is_create_from run new_events_def)
  show "files (snd (create f env w)) =
        (files w)(path_of f \<mapsto> ModelFile
          (c\<lparr>author := ''LifeLens Medical AI'', short_description := description_of f,
             version := ''1.0.0''\<rparr>))"
    by (simp add: create_is_create_from run)
next
  assume "fst (create f env w) = Returns m"
  then have ret: "fst (create_from f env w) = Returns m" by (simp add: create_is_create_from)
  then have pair: "create_from f env w = (Returns m, snd (create_from f env w))"
    by (metis prod.collapse)
  from create_returns_replies [OF pair] obtain k c la lb lc where r:
    "Sequential_reply env (layers_of f) (lib w) = (Returns k, la)"
    "compile_reply env k ''adam'' (loss_of f) la = (Returns (), lb)"
    "convert_reply env k (inputs_of f) (outputs_of f) iOS15 ComputeUnit_ALL lb = (Returns c, lc)"
    "save_reply env (c\<lparr>author := ''LifeLens Medical AI'', short_description := description_of f,
           version := ''1.0.0''\<rparr>) (path_of f) (files w) lc = Returns ()"
    "print_reply env (message_of f) (stdout w) = Returns ()"
    "m = c\<lparr>author := ''LifeLens Medical AI'', short_description := description_of f,
           version := ''1.0.0''\<rparr>"
    by blast
  from create_when_replies [OF r(1-5)] r(6)
  have w': "snd (create_from f env w) =
      w\<lparr>files := (files w)(path_of f \<mapsto> ModelFile m),
        stdout := stdout w @ [message_of f],
        lib := lc,
        trace := trace w @
          [(Sequential (layers_of f), Ok),
           (Compile k ''adam'' (loss_of f), Ok),
           (Convert k (inputs_of f) (outputs_of f) iOS15 ComputeUnit_ALL, Ok),
           (Save m (path_of f), Ok),
           (Print (message_of f), Ok),
           (Invoke (name_of f), Ok)]\<rparr>"
    by simp
  show "\<exists>k c la lb lc.
         Sequential_reply env (layers_of f) (lib w) = (Returns k, la) \<and>
         compile_reply env k ''adam'' (loss_of f) la = (Returns (), lb) \<and>
         convert_reply env k (inputs_of f) (outputs_of f) iOS15 ComputeUnit_ALL lb =
           (Returns c, lc) \<and>
         save_reply env m (path_of f) (files w) lc = Returns () \<and>
         print_reply env (message_of f) (stdout w) = Returns () \<and>
         m = c\<lparr>author := ''LifeLens Medical AI'', short_description := description_of f,
               version := ''1.0.0''\<rparr> \<and>
         new_events w (snd (create f env w)) =
           [(Sequential (layers_of f), Ok),
            (Compile k ''adam'' (loss_of f), Ok),
            (Convert k (inputs_of f) (outputs_of f) iOS15 ComputeUnit_ALL, Ok),
            (Save m (path_of f), Ok),
            (Print (message_of f), Ok),
            (Invoke (name_of f), Ok)] \<and>
         files (snd (create f env w)) = (files w)(path_of f \<mapsto> ModelFile m)"
    using r w'
    by (intro exI [of _ k] exI [of _ c] exI [of _ la] exI [of _ lb] exI [of _ lc])
       (simp add: create_is_create_from new_events_def)
qed

theorem create_builds_converts_saves_witness:
  "fst (create Arrhythmia plain_env ready_world) =
     Returns \<lparr>core = 12, author = ''LifeLens Medical AI'',
       short_description = ''ECG Arrhythmia Detection (AFib, VTach, PVCs)'',
       version = ''1.0.0''\<rparr> \<and>
   fst (create Troponin plain_env ready_world) =
     Returns \<lparr>core = 8, author = ''LifeLens Medical AI'',
       short_description = ''Troponin Level Detection (38ng/L sensitivity)'',
       version = ''1.0.0''\<rparr> \<and>
   fst (create BloodPressure plain_env ready_world) =
     Returns \<lparr>core = 7, author = ''LifeLens Medical AI'',
       short_description = ''Blood Pressure Estimation ('' @ plus_minus @ ''5 mmHg accuracy)'',
       version = ''1.0.0''\<rparr> \<and>
   fst (create FallDetection plain_env ready_world) =
     Returns \<lparr>core = 7, author = ''LifeLens Medical AI'',
       short_description = ''Emergency Fall Detection'',
       version = ''1.0.0''\<rparr> \<and>
   fst (create ActivityRecognition plain_env ready_world) =
     Returns \<lparr>core = 7, author = ''LifeLens Medical AI'',
       short_description = ''Activity Recognition (Exercise/Sleep/Stress)'',
       version = ''1.0.0''\<rparr> \<and>
   fst (create SignalQuality plain_env ready_world) =
     Returns \<lparr>core = 5, author = ''LifeLens Medical AI'',
       short_description = ''Signal Quality Assessment'',
       version = ''1.0.0''\<rparr> \<and>
   fst (create Glucose plain_env ready_world) =
     Returns \<lparr>core = 5, author = ''LifeLens Medical AI'',
       short_description = ''Glucose Prediction (30-min forecast)'',
       version = ''1.0.0''\<rparr> \<and>
   saved (new_events ready_world (snd (create Glucose plain_env ready_world))) =
     [''CoreMLModels/Glucose_Prediction.mlmodel'']"
proof -
  have a0: "fst (create Arrhythmia plain_env ready_world) =
         Returns \<lparr>core = 12, author = ''LifeLens Medical AI'',
           short_description = ''ECG Arrhythmia Detection (AFib, VTach, PVCs)'',
           version = ''1.0.0''\<rparr>"
    using create_builds_converts_saves [where env = plain_env and w = ready_world
        and la = "Suc 0" and lb = "Suc (Suc 0)" and lc = "Suc (Suc (Suc 0))"
        and f = Arrhythmia and k = 12
        and c = "\<lparr>core = 12, author = [], short_description = [], version = []\<rparr>",
        THEN conjunct1]
    by (simp add: plain_env_def ready_world_def empty_world_def layer_defs path_of_def)
  have a1: "fst (create Troponin plain_env ready_world) =
         Returns \<lparr>core = 8, author = ''LifeLens Medical AI'',
           short_description = ''Troponin Level Detection (38ng/L sensitivity)'',
           version = ''1.0.0''\<rparr>"
    using create_builds_converts_saves [where env = plain_env and w = ready_world
        and la = "Suc 0" and lb = "Suc (Suc 0)" and lc = "Suc (Suc (Suc 0))"
        and f = Troponin and k = 8
        and c = "\<lparr>core = 8, author = [], short_description = [], version = []\<rparr>",
        THEN conjunct1]
    by (simp add: plain_env_def ready_world_def empty_world_def layer_defs path_of_def)
  have a2: "fst (create BloodPressure plain_env ready_world) =
         Returns \<lparr>core = 7, author = ''LifeLens Medical AI'',
           short_description = ''Blood Pressure Estimation ('' @ plus_minus @ ''5 mmHg accuracy)'',
           version = ''1.0.0''\<rparr>"
    using create_builds_converts_saves [where env = plain_env and w = ready_world
        and la = "Suc 0" and lb = "Suc (Suc 0)" and lc = "Suc (Suc (Suc 0))"
        and f = BloodPressure and k = 7
        and c = "\<lparr>core = 7, author = [], short_description = [], version = []\<rparr>",
        THEN conjunct1]
    by (simp add: plain_env_def ready_world_def empty_world_def layer_defs path_of_def)
  have a3: "fst (create FallDetection plain_env ready_world) =
         Returns \<lparr>core = 7, author = ''LifeLens Medical AI'',
           short_description = ''Emergency Fall Detection'',
           version = ''1.0.0''\<rparr>"
    using create_builds_converts_saves [where env = plain_env and w = ready_world
        and la = "Suc 0" and lb = "Suc (Suc 0)" and lc = "Suc (Suc (Suc 0))"
        and f = FallDetection and k = 7
        and c = "\<lparr>core = 7, author = [], short_description = [], version = []\<rparr>",
        THEN conjunct1]
    by (simp add: plain_env_def ready_world_def empty_world_def layer_defs path_of_def)
  have a4: "fst (create ActivityRecognition plain_env ready_world) =
         Returns \<lparr>core = 7, author = ''LifeLens Medical AI'',
           short_description = ''Activity Recognition (Exercise/Sleep/Stress)'',
           version = ''1.0.0''\<rparr>"
    using create_builds_converts_saves [where env = plain_env and w = ready_world
        and la = "Suc 0" and lb = "Suc (Suc 0)" and lc = "Suc (Suc (Suc 0))"
        and f = ActivityRecognition and k = 7
        and c = "\<lparr>core = 7, author = [], short_description = [], version = []\<rparr>",
        THEN conjunct1]
    by (simp add: plain_env_def ready_world_def empty_world_def layer_defs path_of_def)
  have a5: "fst (create SignalQuality plain_env ready_world) =
         Returns \<lparr>core = 5, author = ''LifeLens Medical AI'',
           short_description = ''Signal Quality Assessment'',
           version = ''1.0.0''\<rparr>"
    using create_builds_converts_saves [where env = plain_env and w = ready_world
        and la = "Suc 0" and lb = "Suc (Suc 0)" and lc = "Suc (Suc (Suc 0))"
        and f = SignalQuality and k = 5
        and c = "\<lparr>core = 5, author = [], short_description = [], version = []\<rparr>",
        THEN conjunct1]
    by (simp add: plain_env_def ready_world_def empty_world_def layer_defs path_of_def)
  have a6: "fst (create Glucose plain_env ready_world) =
         Returns \<lparr>core = 5, author = ''LifeLens Medical AI'',
           short_description = ''Glucose Prediction (30-min forecast)'',
           version = ''1.0.0''\<rparr>"
    using create_builds_converts_saves [where env = plain_env and w = ready_world
        and la = "Suc 0" and lb = "Suc (Suc 0)" and lc = "Suc (Suc (Suc 0))"
        and f = Glucose and k = 5
        and c = "\<lparr>core = 5, author = [], short_description = [], version = []\<rparr>",
        THEN conjunct1]
    by (simp add: plain_env_def ready_world_def empty_world_def layer_defs path_of_def)
  from create_builds_converts_saves [THEN conjunct2, THEN mp, OF a6]
  have b: "saved (new_events ready_world (snd (create Glucose plain_env ready_world))) =
     [''CoreMLModels/Glucose_Prediction.mlmodel'']"
    by (auto simp add: path_of_def)
  from a0 a1 a2 a3 a4 a5 a6 b show ?thesis by (intro conjI)
qed

text \<open>
  C2. Run as the main program, the script calls the seven functions once each, in the
  order arrhythmia, troponin, blood pressure, fall detection, activity recognition, signal
  quality, glucose. In every run, whatever the libraries do, the functions called are an
  initial part of that list (a run that stops early has called the first few, once each,
  in that order: nothing the libraries return changes which function comes next); in a run
  that returns they are the whole list.
\<close>

theorem main_invokes_seven_in_order:
  "(\<exists>j. invoked (new_events w (snd (script env True w))) = take j (map name_of driver_order)) \<and>
   (fst (script env True w) = Returns () \<longrightarrow>
      invoked (new_events w (snd (script env True w))) =
        [''create_arrhythmia_detection_model'', ''create_troponin_detection_model'',
         ''create_bp_estimation_model'', ''create_fall_detection_model'',
         ''create_activity_recognition_model'', ''create_signal_quality_model'',
         ''create_glucose_prediction_model''])"
proof -
  from invoked_script [of True w env] obtain k where
    k: "invoked (new_events w (snd (script env True w))) = concat (take k (invoked_by True))"
      "fst (script env True w) = Returns () \<longrightarrow> k = length (invoked_by True)"
    by blast
  have "invoked (new_events w (snd (script env True w))) =
      take (length (concat (take k (invoked_by True)))) (map name_of driver_order)"
    using k(1) concat_take_prefix [of k "invoked_by True"] by (simp add: concat_invoked_by)
  then have first: "\<exists>j. invoked (new_events w (snd (script env True w))) =
      take j (map name_of driver_order)" ..
  have "invoked (new_events w (snd (script env True w))) = map name_of driver_order"
    if "fst (script env True w) = Returns ()"
    using that k by (simp add: concat_invoked_by)
  then show ?thesis using first by (simp add: driver_order_def)
qed

theorem main_invokes_seven_in_order_witness:
  "fst (script plain_env True empty_world) = Returns () \<and>
   invoked (new_events empty_world (snd (script plain_env True empty_world))) =
     [''create_arrhythmia_detection_model'', ''create_troponin_detection_model'',
      ''create_bp_estimation_model'', ''create_fall_detection_model'',
      ''create_activity_recognition_model'', ''create_signal_quality_model'',
      ''create_glucose_prediction_model'']"
  using main_invokes_seven_in_order [THEN conjunct2, THEN mp, OF plain_run_returns]
    plain_run_returns
  by (rule_tac conjI)

text \<open>
  C3. No function of the script and no part of the module body catches an exception. In
  the history of a call of one of the seven functions, and in the history of a run of the
  script, a call that raised \<open>e\<close> is followed by nothing but the functions of the script
  that were running, each ended by the same \<open>e\<close>: no further library call is made, and
  the function, or the script, ends with that same \<open>e\<close>.
\<close>

theorem errors_propagate_uncaught:
  "(new_events w (snd (create f env w)) = pre @ (q, Err e) # post \<longrightarrow>
      fst (create f env w) = Raises e \<and>
      (\<forall>ev\<in>set post. is_invoke (fst ev) \<and> snd ev = Err e)) \<and>
   (new_events v (snd (script env is_main v)) = pre' @ (q', Err e') # post' \<longrightarrow>
      fst (script env is_main v) = Raises e' \<and>
      (\<forall>ev\<in>set post'. is_invoke (fst ev) \<and> snd ev = Err e'))"
proof (intro conjI impI)
  assume h: "new_events w (snd (create f env w)) = pre @ (q, Err e) # post"
  have "ended (pre @ (q, Err e) # post) (outcome_of (fst (create f env w)))"
    using ended_create [of w f env] h by simp
  from ended_split [OF this]
  show "fst (create f env w) = Raises e"
    and "\<forall>ev\<in>set post. is_invoke (fst ev) \<and> snd ev = Err e"
    by (simp_all add: outcome_Err)
next
  assume h: "new_events v (snd (script env is_main v)) = pre' @ (q', Err e') # post'"
  have "ended (pre' @ (q', Err e') # post') (outcome_of (fst (script env is_main v)))"
    using ended_script [of v env is_main] h by simp
  from ended_split [OF this]
  show "fst (script env is_main v) = Raises e'"
    and "\<forall>ev\<in>set post'. is_invoke (fst ev) \<and> snd ev = Err e'"
    by (simp_all add: outcome_Err)
qed

theorem errors_propagate_uncaught_witness:
  "new_events ready_world (snd (create BloodPressure full_disk_env ready_world)) =
     [(Sequential bp_layers, Ok),
      (Compile 7 ''adam'' ''mse'', Ok),
      (Convert 7 [TensorType (Some [1, 200]) ''ppg_ptt_signal'']
         [TensorType None ''blood_pressure''] iOS15 ComputeUnit_ALL, Ok)] @
     (Save \<lparr>core = 7, author = ''LifeLens Medical AI'',
         short_description = ''Blood Pressure Estimation ('' @ plus_minus @ ''5 mmHg accuracy)'',
         version = ''1.0.0''\<rparr> ''CoreMLModels/BP_Estimation.mlmodel'',
       Err (OSError ''No space left on device'')) #
     [(Invoke ''create_bp_estimation_model'', Err (OSError ''No space left on device''))] \<and>
   fst (create BloodPressure full_disk_env ready_world) =
     Raises (OSError ''No space left on device'') \<and>
   new_events empty_world (snd (script full_disk_env True empty_world)) =
     take 24 (new_events empty_world (snd (script full_disk_env True empty_world))) @
     (Save \<lparr>core = 7, author = ''LifeLens Medical AI'',
         short_description = ''Blood Pressure Estimation ('' @ plus_minus @ ''5 mmHg accuracy)'',
         version = ''1.0.0''\<rparr> ''CoreMLModels/BP_Estimation.mlmodel'',
       Err (OSError ''No space left on device'')) #
     [(Invoke ''create_bp_estimation_model'', Err (OSError ''No space left on device''))] \<and>
   fst (script full_disk_env True empty_world) = Raises (OSError ''No space left on device'')"
proof -
  have h1: "new_events ready_world (snd (create BloodPressure full_disk_env ready_world)) =
     [(Sequential bp_layers, Ok),
      (Compile 7 ''adam'' ''mse'', Ok),
      (Convert 7 [TensorType (Some [1, 200]) ''ppg_ptt_signal'']
         [TensorType None ''blood_pressure''] iOS15 ComputeUnit_ALL, Ok)] @
     (Save \<lparr>core = 7, author = ''LifeLens Medical AI'',
         short_description = ''Blood Pressure Estimation ('' @ plus_minus @ ''5 mmHg accuracy)'',
         version = ''1.0.0''\<rparr> ''CoreMLModels/BP_Estimation.mlmodel'',
       Err (OSError ''No space left on device'')) #
     [(Invoke ''create_bp_estimation_model'', Err (OSError ''No space left on device''))]"
    by (simp add: run_defs new_events_def bp_layers_def)
  note h2 = full_disk_run_events
  from errors_propagate_uncaught [THEN conjunct1, THEN mp, OF h1]
  have c1: "fst (create BloodPressure full_disk_env ready_world) =
     Raises (OSError ''No space left on device'')" by (rule conjunct1)
  from errors_propagate_uncaught [THEN conjunct2, THEN mp, OF h2]
  have c2: "fst (script full_disk_env True empty_world) =
     Raises (OSError ''No space left on device'')" by (rule conjunct1)
  from h1 h2 c1 c2 show ?thesis by (intro conjI)
qed

text \<open>
  C4. The script touches the file system in its output directory only. Whatever the
  libraries do, a run of the script leaves every path other than \<^verbatim>\<open>CoreMLModels\<close> and the
  seven model files as it was, and so does a call of one of the seven functions for every
  path other than its own file; the only name given to \<^verbatim>\<open>os.makedirs\<close> is \<^verbatim>\<open>CoreMLModels\<close> and
  the only paths given to \<^verbatim>\<open>save\<close> are the seven files, all of them inside that directory.
  A run as the main program returns when the libraries do their part and
  \<^verbatim>\<open>CoreMLModels\<close> is absent or a directory; after a run that returns the directory is there
  and each of the seven paths holds the saved model of its function, with its metadata.
\<close>

theorem files_only_in_output_directory:
  "(p \<noteq> ''CoreMLModels'' \<and> p \<notin> set (map path_of driver_order) \<longrightarrow>
      files (snd (script env is_main w)) p = files w p) \<and>
   (q \<noteq> path_of f \<longrightarrow> files (snd (create f env v)) q = files v q) \<and>
   set (made (new_events w (snd (script env is_main w)))) \<subseteq> {''CoreMLModels''} \<and>
   set (saved (new_events w (snd (script env is_main w)))) \<subseteq> set (map path_of driver_order) \<and>
   (fst (script env True w) = Returns () \<longrightarrow>
      files (snd (script env True w)) ''CoreMLModels'' = Some Dir \<and>
      (\<forall>g. \<exists>m. files (snd (script env True w)) (path_of g) = Some (ModelFile m) \<and>
         author m = ''LifeLens Medical AI'' \<and> short_description m = description_of g \<and>
         version m = ''1.0.0'')) \<and>
   (libraries_return env \<and>
    (files w ''CoreMLModels'' = None \<or> files w ''CoreMLModels'' = Some Dir) \<longrightarrow>
      fst (script env True w) = Returns () \<and>
      files (snd (script env True w)) ''CoreMLModels'' = Some Dir \<and>
      (\<forall>g. \<exists>m. files (snd (script env True w)) (path_of g) = Some (ModelFile m) \<and>
         author m = ''LifeLens Medical AI'' \<and> short_description m = description_of g \<and>
         version m = ''1.0.0'')) \<and>
   map path_of driver_order =
     [''CoreMLModels/ECG_Arrhythmia.mlmodel'', ''CoreMLModels/Troponin_Detection.mlmodel'',
      ''CoreMLModels/BP_Estimation.mlmodel'', ''CoreMLModels/Fall_Detection.mlmodel'',
      ''CoreMLModels/Activity_Recognition.mlmodel'', ''CoreMLModels/Signal_Quality.mlmodel'',
      ''CoreMLModels/Glucose_Prediction.mlmodel'']"
proof -
  have frame: "files (snd (script env is_main w)) p = files w p"
    if "p \<noteq> ''CoreMLModels'' \<and> p \<notin> set (map path_of driver_order)"
  proof (rule script_frame)
    show "p \<noteq> ''CoreMLModels''" using that by simp
    show "\<forall>f. p \<noteq> path_of f" using that path_in_driver_order by metis
  qed
  have one: "files (snd (create f env v)) q = files v q" if "q \<noteq> path_of f"
    using that by (rule create_files')
  have full: "files (snd (script env True w)) ''CoreMLModels'' = Some Dir \<and>
      (\<forall>g. \<exists>m. files (snd (script env True w)) (path_of g) = Some (ModelFile m) \<and>
         author m = ''LifeLens Medical AI'' \<and> short_description m = description_of g \<and>
         version m = ''1.0.0'')"
    if "fst (script env True w) = Returns ()"
    using script_returns_files(1) [OF that] script_returns_models [OF that]
    by (simp add: isdir_def holds_model_of_def)
  have total: "fst (script env True w) = Returns ()"
    if "libraries_return env \<and>
      (files w ''CoreMLModels'' = None \<or> files w ''CoreMLModels'' = Some Dir)"
    using that by (intro script_returns_if_libraries) simp_all
  from frame one full total script_paths [of w env is_main] paths_literal show ?thesis
    by (intro conjI impI) simp_all
qed

theorem files_only_in_output_directory_witness:
  "libraries_return plain_env \<and>
   fst (script plain_env True empty_world) = Returns () \<and>
   files (snd (script plain_env True empty_world)) ''README.md'' = None \<and>
   files (snd (script plain_env True empty_world)) ''CoreMLModels'' = Some Dir \<and>
   (\<exists>m. files (snd (script plain_env True empty_world)) ''CoreMLModels/ECG_Arrhythmia.mlmodel'' =
      Some (ModelFile m) \<and>
      short_description m = ''ECG Arrhythmia Detection (AFib, VTach, PVCs)'') \<and>
   (\<exists>m. files (snd (script plain_env True empty_world)) ''CoreMLModels/Troponin_Detection.mlmodel'' =
      Some (ModelFile m) \<and>
      short_description m = ''Troponin Level Detection (38ng/L sensitivity)'') \<and>
   (\<exists>m. files (snd (script plain_env True empty_world)) ''CoreMLModels/BP_Estimation.mlmodel'' =
      Some (ModelFile m) \<and>
      short_description m = ''Blood Pressure Estimation ('' @ plus_minus @ ''5 mmHg accuracy)'') \<and>
   (\<exists>m. files (snd (script plain_env True empty_world)) ''CoreMLModels/Fall_Detection.mlmodel'' =
      Some (ModelFile m) \<and> short_description m = ''Emergency Fall Detection'') \<and>
   (\<exists>m. files (snd (script plain_env True empty_world)) ''CoreMLModels/Activity_Recognition.mlmodel'' =
      Some (ModelFile m) \<and>
      short_description m = ''Activity Recognition (Exercise/Sleep/Stress)'') \<and>
   (\<exists>m. files (snd (script plain_env True empty_world)) ''CoreMLModels/Signal_Quality.mlmodel'' =
      Some (ModelFile m) \<and> short_description m = ''Signal Quality Assessment'') \<and>
   (\<exists>m. files (snd (script plain_env True empty_world)) ''CoreMLModels/Glucose_Prediction.mlmodel'' =
      Some (ModelFile m) \<and> short_description m = ''Glucose Prediction (30-min forecast)'') \<and>
   files (snd (create Glucose plain_env ready_world)) ''CoreMLModels/Fall_Detection.mlmodel'' = None"
proof -
  note T = files_only_in_output_directory [where env = plain_env and is_main = True
      and w = empty_world and p = "''README.md''" and f = Glucose and v = ready_world
      and q = "''CoreMLModels/Fall_Detection.mlmodel''"]
  have h0: "libraries_return plain_env"
    by (simp add: libraries_return_def plain_env_def)
  have h1: "''README.md'' \<noteq> ''CoreMLModels'' \<and> ''README.md'' \<notin> set (map path_of driver_order)"
    by (simp add: driver_order_def path_of_def)
  have h2: "''CoreMLModels/Fall_Detection.mlmodel'' \<noteq> path_of Glucose"
    by (simp add: path_of_def)
  have h3: "libraries_return plain_env \<and>
      (files empty_world ''CoreMLModels'' = None \<or> files empty_world ''CoreMLModels'' = Some Dir)"
    using h0 by (simp add: empty_world_def)
  have c1: "files (snd (script plain_env True empty_world)) ''README.md'' = None"
    using T [THEN conjunct1, THEN mp, OF h1] by (simp add: empty_world_def)
  have c2: "files (snd (create Glucose plain_env ready_world)) ''CoreMLModels/Fall_Detection.mlmodel'' = None"
    using T [THEN conjunct2, THEN conjunct1, THEN mp, OF h2]
    by (simp add: ready_world_def empty_world_def)
  note c3 = T [THEN conjunct2, THEN conjunct2, THEN conjunct2, THEN conjunct2, THEN conjunct2,
      THEN conjunct1, THEN mp, OF h3]
  have ret: "fst (script plain_env True empty_world) = Returns ()"
    and dir: "files (snd (script plain_env True empty_world)) ''CoreMLModels'' = Some Dir"
    and all: "\<forall>g. \<exists>m. files (snd (script plain_env True empty_world)) (path_of g) =
        Some (ModelFile m) \<and> author m = ''LifeLens Medical AI'' \<and>
        short_description m = description_of g \<and> version m = ''1.0.0''"
    using c3 by blast+
  have each: "\<exists>m. files (snd (script plain_env True empty_world)) (path_of g) =
        Some (ModelFile m) \<and> short_description m = description_of g" for g
    using all by blast
  show ?thesis
    using h0 ret c1 dir c2 each [of Arrhythmia] each [of Troponin] each [of BloodPressure]
      each [of FallDetection] each [of ActivityRecognition] each [of SignalQuality]
      each [of Glucose]
    by (simp add: path_of_def)
qed




text \<open>
  C9. The module body calls \<^verbatim>\<open>os.makedirs('CoreMLModels', exist_ok=True)\<close>. When the directory
  exists already, that call returns and leaves the file system as it is; in a run of the
  script, imported or run as the main program, the call does not raise, and the directory
  is still there at the end. An import in which the imports of the libraries return then
  returns, with the file system unchanged, \<^verbatim>\<open>os.makedirs\<close> being its last call. After an
  import that returned the directory is there, so a second one finds it in place.
\<close>

theorem output_directory_idempotent:
  "(isdir w ''CoreMLModels'' \<longrightarrow>
      fst (os_makedirs env ''CoreMLModels'' True w) = Returns () \<and>
      files (snd (os_makedirs env ''CoreMLModels'' True w)) = files w) \<and>
   (isdir w ''CoreMLModels'' \<longrightarrow>
      (\<forall>oc. (Makedirs ''CoreMLModels'' True, oc)
           \<in> set (new_events w (snd (script env is_main w))) \<longrightarrow> oc = Ok) \<and>
      isdir (snd (script env is_main w)) ''CoreMLModels'') \<and>
   (isdir w ''CoreMLModels'' \<and> (\<forall>n l. fst (import_reply env n l) = Returns ()) \<longrightarrow>
      fst (script env False w) = Returns () \<and>
      files (snd (script env False w)) = files w \<and>
      new_events w (snd (script env False w)) \<noteq> [] \<and>
      last (new_events w (snd (script env False w))) = (Makedirs ''CoreMLModels'' True, Ok)) \<and>
   (fst (script env False w) = Returns () \<longrightarrow> isdir (snd (script env False w)) ''CoreMLModels'')"
proof (intro conjI impI)
  assume dir: "isdir w ''CoreMLModels''"
  from makedirs_exists [OF dir, of env]
  show "fst (os_makedirs env ''CoreMLModels'' True w) = Returns ()"
    and "files (snd (os_makedirs env ''CoreMLModels'' True w)) = files w"
    by simp_all
  have "isdir (snd (run_steps (script_steps env is_main) w)) ''CoreMLModels'' \<and>
     (\<forall>ev\<in>set (new_events w (snd (run_steps (script_steps env is_main) w))).
        \<forall>oc. ev = (Makedirs ''CoreMLModels'' True, oc) \<longrightarrow> oc = Ok)"
  proof (rule all_events_while [OF script_steps_grow, where I = "\<lambda>v. isdir v ''CoreMLModels''"])
    show "isdir (snd (s v)) ''CoreMLModels'' \<and>
       (\<forall>ev\<in>set (new_events v (snd (s v))).
          \<forall>oc. ev = (Makedirs ''CoreMLModels'' True, oc) \<longrightarrow> oc = Ok)"
      if "s \<in> set (script_steps env is_main)" and "isdir v ''CoreMLModels''" for s v
      using that by (intro makedirs_event_Ok)
    show "isdir w ''CoreMLModels''" by (rule dir)
  qed
  then show "\<forall>oc. (Makedirs ''CoreMLModels'' True, oc)
           \<in> set (new_events w (snd (script env is_main w))) \<longrightarrow> oc = Ok"
    and "isdir (snd (script env is_main w)) ''CoreMLModels''"
    by (auto simp add: script_is_steps)
next
  assume h: "isdir w ''CoreMLModels'' \<and> (\<forall>n l. fst (import_reply env n l) = Returns ())"
  have run: "script env False = run_steps (module_steps env)"
    by (simp add: script_is_steps script_steps_def)
  from h module_steps_return [of env w]
  have ret: "fst (run_steps (module_steps env) w) = Returns ()"
    and same: "files (snd (run_steps (module_steps env) w)) = files w"
    by simp_all
  show "fst (script env False w) = Returns ()" using ret by (simp add: run)
  show "files (snd (script env False w)) = files w" using same by (simp add: run)
  have "module_steps env = butlast (module_steps env) @ [os_makedirs env ''CoreMLModels'' True]"
    by (simp add: module_steps_def)
  then have split: "run_steps (module_steps env) =
      run_steps (run_steps (butlast (module_steps env)) # [os_makedirs env ''CoreMLModels'' True])"
    by (metis run_steps_append)
  let ?A = "run_steps (butlast (module_steps env))"
  have gA: "grows ?A"
    by (rule grows_run_steps) (simp add: module_steps_def grows_import)
  have gB: "\<forall>s\<in>set [os_makedirs env ''CoreMLModels'' True]. grows s"
    by (simp add: grows_makedirs)
  have retA: "fst (?A w) = Returns ()"
  proof (rule ccontr)
    assume "fst (?A w) \<noteq> Returns ()"
    then have "run_steps (module_steps env) w = ?A w" by (simp add: split run_steps_Cons)
    then show False using ret \<open>fst (?A w) \<noteq> Returns ()\<close> by simp
  qed
  have "new_events w (snd (run_steps (module_steps env) w)) =
      new_events w (snd (?A w)) @
      new_events (snd (?A w)) (snd (run_steps [os_makedirs env ''CoreMLModels'' True] (snd (?A w))))"
    using events_continue [OF gA gB, of w]
    by (simp add: split run_steps_continue [of ?A w, OF retA])
  moreover have "run_steps [os_makedirs env ''CoreMLModels'' True] v =
      os_makedirs env ''CoreMLModels'' True v" for v
    by (simp add: run_steps_single)
  moreover have "fst (os_makedirs env ''CoreMLModels'' True (snd (?A w))) = Returns ()"
    using ret by (simp add: split run_steps_continue [of ?A w, OF retA] run_steps_single)
  ultimately have "new_events w (snd (run_steps (module_steps env) w)) =
      new_events w (snd (?A w)) @ [(Makedirs ''CoreMLModels'' True, Ok)]"
    by (simp add: events_makedirs)
  then show "new_events w (snd (script env False w)) \<noteq> []"
    and "last (new_events w (snd (script env False w))) = (Makedirs ''CoreMLModels'' True, Ok)"
    by (simp_all add: run)
next
  assume ret: "fst (script env False w) = Returns ()"
  then have ret': "fst (run_steps (script_steps env False) w) = Returns ()"
    by (simp add: script_is_steps)
  have "isdir (snd (run_steps (script_steps env False) w)) ''CoreMLModels''"
  proof (rule established_run_steps [OF ret' makedirs_in_script])
    show "isdir (snd (os_makedirs env ''CoreMLModels'' True v)) ''CoreMLModels''"
      if "fst (os_makedirs env ''CoreMLModels'' True v) = Returns ()" for v
      using that by (rule makedirs_Returns)
    show "isdir (snd (t v)) ''CoreMLModels''"
      if "t \<in> set (script_steps env False)" and "isdir v ''CoreMLModels''" for t v
      using that script_steps_keep_dir [of env False] by blast
  qed
  then show "isdir (snd (script env False w)) ''CoreMLModels''" by (simp add: script_is_steps)
qed

theorem output_directory_idempotent_witness:
  "isdir ready_world ''CoreMLModels'' \<and>
   fst (os_makedirs plain_env ''CoreMLModels'' True ready_world) = Returns () \<and>
   fst (script plain_env False ready_world) = Returns () \<and>
   files (snd (script plain_env False ready_world)) = files ready_world \<and>
   fst (script plain_env False empty_world) = Returns () \<and>
   isdir (snd (script plain_env False empty_world)) ''CoreMLModels''"
proof -
  note T = output_directory_idempotent [where env = plain_env]
  have d: "isdir ready_world ''CoreMLModels''"
    by (simp add: isdir_def ready_world_def empty_world_def)
  have i: "\<forall>n l. fst (import_reply plain_env n l) = Returns ()"
    by (simp add: plain_env_def)
  have r: "fst (script plain_env False empty_world) = Returns ()"
    by (simp add: run_defs script_defs)
  from T [THEN conjunct1, THEN mp, OF d]
  have c1: "fst (os_makedirs plain_env ''CoreMLModels'' True ready_world) = Returns ()"
    by (rule conjunct1)
  from T [THEN conjunct2, THEN conjunct2, THEN conjunct1, THEN mp, OF conjI [OF d i]]
  have c2: "fst (script plain_env False ready_world) = Returns ()"
    and c3: "files (snd (script plain_env False ready_world)) = files ready_world"
    by simp_all
  from T [THEN conjunct2, THEN conjunct2, THEN conjunct2, THEN mp, OF r]
  have c4: "isdir (snd (script plain_env False empty_world)) ''CoreMLModels''" .
  from d c1 c2 c3 r c4 show ?thesis by (intro conjI)
qed

text \<open>
  C6. The script has no loop and no recursion: it is a fixed list of statements. If no
  call of a library hangs, no run of the script hangs: it returns or raises. Whatever the
  libraries do, a run makes at most 58 calls (6 imports, \<^verbatim>\<open>os.makedirs\<close>, 9 prints, and seven
  functions of 5 calls each, themselves counted), and no function is called twice.
\<close>

theorem script_terminates_single_pass:
  "(always_returns env \<longrightarrow> fst (script env is_main w) \<noteq> Hangs) \<and>
   length (new_events w (snd (script env is_main w))) \<le> 58 \<and>
   distinct (invoked (new_events w (snd (script env is_main w))))"
proof (intro conjI impI)
  assume "always_returns env"
  then show "fst (script env is_main w) \<noteq> Hangs"
    unfolding script_is_steps by (intro no_hang_run_steps script_steps_no_hang)
next
  show "length (new_events w (snd (script env is_main w))) \<le> 58" by (rule length_script)
next
  show "distinct (invoked (new_events w (snd (script env is_main w))))"
    by (rule distinct_invoked_script)
qed

theorem script_terminates_single_pass_witness:
  "always_returns plain_env \<and> fst (script plain_env True empty_world) \<noteq> Hangs \<and>
   length (new_events empty_world (snd (script plain_env True empty_world))) \<le> 58"
proof -
  have h: "always_returns plain_env" by (simp add: always_returns_def plain_env_def)
  from script_terminates_single_pass [of plain_env True empty_world] h show ?thesis by simp
qed

text \<open>
  C7, amended. For every one of the seven functions, a call whose five library calls return
  returns, and a call that returns has made one call of \<^verbatim>\<open>save\<close>, of the model it returns, at
  a path that ends in \<^verbatim>\<open>.mlmodel\<close>; it has made no directory; the file at that path is the
  saved model and every other path of the file system is as it was before the call.
  Besides the file, the call writes one line to standard output, the check mark and
  'Created' with the name of the file, and nothing more.
\<close>

theorem create_produces_one_model_file:
  "(Sequential_reply env (layers_of f) (lib w) = (Returns k, la) \<and>
    compile_reply env k ''adam'' (loss_of f) la = (Returns (), lb) \<and>
    convert_reply env k (inputs_of f) (outputs_of f) iOS15 ComputeUnit_ALL lb = (Returns c, lc) \<and>
    save_reply env
      (c\<lparr>author := ''LifeLens Medical AI'', short_description := description_of f,
         version := ''1.0.0''\<rparr>) (path_of f) (files w) lc = Returns () \<and>
    print_reply env (message_of f) (stdout w) = Returns () \<longrightarrow>
      fst (create f env w) =
        Returns (c\<lparr>author := ''LifeLens Medical AI'', short_description := description_of f,
                   version := ''1.0.0''\<rparr>) \<and>
      saved (new_events w (snd (create f env w))) = [path_of f] \<and>
      saved_models (new_events w (snd (create f env w))) =
        [(c\<lparr>author := ''LifeLens Medical AI'', short_description := description_of f,
                   version := ''1.0.0''\<rparr>)] \<and>
      made (new_events w (snd (create f env w))) = [] \<and>
      files (snd (create f env w)) =
        (files w)(path_of f \<mapsto> ModelFile
          (c\<lparr>author := ''LifeLens Medical AI'', short_description := description_of f,
                   version := ''1.0.0''\<rparr>)) \<and>
      stdout (snd (create f env w)) = stdout w @ [message_of f]) \<and>
   (fst (create f env w) = Returns m \<longrightarrow>
      saved (new_events w (snd (create f env w))) = [path_of f] \<and>
      saved_models (new_events w (snd (create f env w))) = [m] \<and>
      made (new_events w (snd (create f env w))) = [] \<and>
      files (snd (create f env w)) (path_of f) = Some (ModelFile m) \<and>
      (\<forall>p. p \<noteq> path_of f \<longrightarrow> files (snd (create f env w)) p = files w p) \<and>
      stdout (snd (create f env w)) = stdout w @ [message_of f]) \<and>
   (\<exists>stem. path_of f = ''CoreMLModels/'' @ stem @ ''.mlmodel'')"
proof (intro conjI impI)
  assume "Sequential_reply env (layers_of f) (lib w) = (Returns k, la) \<and>
    compile_reply env k ''adam'' (loss_of f) la = (Returns (), lb) \<and>
    convert_reply env k (inputs_of f) (outputs_of f) iOS15 ComputeUnit_ALL lb = (Returns c, lc) \<and>
    save_reply env
      (c\<lparr>author := ''LifeLens Medical AI'', short_description := description_of f,
         version := ''1.0.0''\<rparr>) (path_of f) (files w) lc = Returns () \<and>
    print_reply env (message_of f) (stdout w) = Returns ()"
  then have run: "create_from f env w =
     (Returns (c\<lparr>author := ''LifeLens Medical AI'', short_description := description_of f,
                   version := ''1.0.0''\<rparr>),
      w\<lparr>files := (files w)(path_of f \<mapsto> ModelFile
              (c\<lparr>author := ''LifeLens Medical AI'', short_description := description_of f,
                   version := ''1.0.0''\<rparr>)),
        stdout := stdout w @ [message_of f],
        lib := lc,
        trace := trace w @
          [(Sequential (layers_of f), Ok),
           (Compile k ''adam'' (loss_of f), Ok),
           (Convert k (inputs_of f) (outputs_of f) iOS15 ComputeUnit_ALL, Ok),
           (Save (c\<lparr>author := ''LifeLens Medical AI'', short_description := description_of f,
                   version := ''1.0.0''\<rparr>) (path_of f), Ok),
           (Print (message_of f), Ok),
           (Invoke (name_of f), Ok)]\<rparr>)"
    by (intro create_when_replies [where k = k and ?l1.0 = la and ?l2.0 = lb and c = c
          and ?l3.0 = lc]) simp_all
  show "fst (create f env w) =
        Returns (c\<lparr>author := ''LifeLens Medical AI'', short_description := description_of f,
                   version := ''1.0.0''\<rparr>)"
    by (simp add: create_is_create_from run)
  show "saved (new_events w (snd (create f env w))) = [path_of f]"
    by (simp add: create_is_create_from run new_events_def)
  show "saved_models (new_events w (snd (create f env w))) =
        [(c\<lparr>author := ''LifeLens Medical AI'', short_description := description_of f,
                   version := ''1.0.0''\<rparr>)]"
    by (simp add: create_is_create_from run new_events_def)
  show "made (new_events w (snd (create f env w))) = []"
    by (simp add: create_is_create_from run new_events_def)
  show "files (snd (create f env w)) =
        (files w)(path_of f \<mapsto> ModelFile
          (c\<lparr>author := ''LifeLens Medical AI'', short_description := description_of f,
                   version := ''1.0.0''\<rparr>))"
    by (simp add: create_is_create_from run)
  show "stdout (snd (create f env w)) = stdout w @ [message_of f]"
    by (simp add: create_is_create_from run)
next
  assume "fst (create f env w) = Returns m"
  then have "fst (create_from f env w) = Returns m" by (simp add: create_is_create_from)
  from create_returns [OF this] obtain k c l1 l2 l3 where
    w': "snd (create_from f env w) = w\<lparr>files := (files w)(path_of f \<mapsto> ModelFile m),
            stdout := stdout w @ [message_of f],
            lib := l3,
            trace := trace w @
              [(Sequential (layers_of f), Ok),
               (Compile k ''adam'' (loss_of f), Ok),
               (Convert k (inputs_of f) (outputs_of f) iOS15 ComputeUnit_ALL, Ok),
               (Save m (path_of f), Ok),
               (Print (message_of f), Ok),
               (Invoke (name_of f), Ok)]\<rparr>"
    by blast
  show "saved (new_events w (snd (create f env w))) = [path_of f]"
    by (simp add: create_is_create_from w' new_events_def)
  show "saved_models (new_events w (snd (create f env w))) = [m]"
    by (simp add: create_is_create_from w' new_events_def)
  show "made (new_events w (snd (create f env w))) = []"
    by (simp add: create_is_create_from w' new_events_def)
  show "files (snd (create f env w)) (path_of f) = Some (ModelFile m)"
    by (simp add: create_is_create_from w')
  show "\<forall>p. p \<noteq> path_of f \<longrightarrow> files (snd (create f env w)) p = files w p"
    by (simp add: create_is_create_from w')
  show "stdout (snd (create f env w)) = stdout w @ [message_of f]"
    by (simp add: create_is_create_from w')
next
  show "\<exists>stem. path_of f = ''CoreMLModels/'' @ stem @ ''.mlmodel''"
    by (rule path_of_mlmodel)
qed

theorem create_produces_one_model_file_witness:
  "saved (new_events ready_world (snd (create Arrhythmia plain_env ready_world))) =
     [''CoreMLModels/ECG_Arrhythmia.mlmodel''] \<and>
   stdout (snd (create Arrhythmia plain_env ready_world)) =
     [check_mark @ '' Created ECG_Arrhythmia.mlmodel''] \<and>
   saved (new_events ready_world (snd (create Troponin plain_env ready_world))) =
     [''CoreMLModels/Troponin_Detection.mlmodel''] \<and>
   stdout (snd (create Troponin plain_env ready_world)) =
     [check_mark @ '' Created Troponin_Detection.mlmodel''] \<and>
   saved (new_events ready_world (snd (create BloodPressure plain_env ready_world))) =
     [''CoreMLModels/BP_Estimation.mlmodel''] \<and>
   stdout (snd (create BloodPressure plain_env ready_world)) =
     [check_mark @ '' Created BP_Estimation.mlmodel''] \<and>
   saved (new_events ready_world (snd (create FallDetection plain_env ready_world))) =
     [''CoreMLModels/Fall_Detection.mlmodel''] \<and>
   stdout (snd (create FallDetection plain_env ready_world)) =
     [check_mark @ '' Created Fall_Detection.mlmodel''] \<and>
   saved (new_events ready_world (snd (create ActivityRecognition plain_env ready_world))) =
     [''CoreMLModels/Activity_Recognition.mlmodel''] \<and>
   stdout (snd (create ActivityRecognition plain_env ready_world)) =
     [check_mark @ '' Created Activity_Recognition.mlmodel''] \<and>
   saved (new_events ready_world (snd (create SignalQuality plain_env ready_world))) =
     [''CoreMLModels/Signal_Quality.mlmodel''] \<and>
   stdout (snd (create SignalQuality plain_env ready_world)) =
     [check_mark @ '' Created Signal_Quality.mlmodel''] \<and>
   saved (new_events ready_world (snd (create Glucose plain_env ready_world))) =
     [''CoreMLModels/Glucose_Prediction.mlmodel''] \<and>
   stdout (snd (create Glucose plain_env ready_world)) =
     [check_mark @ '' Created Glucose_Prediction.mlmodel''] \<and>
   files (snd (create SignalQuality plain_env ready_world)) ''CoreMLModels/Signal_Quality.mlmodel'' =
     Some (ModelFile \<lparr>core = 5, author = ''LifeLens Medical AI'',
       short_description = ''Signal Quality Assessment'', version = ''1.0.0''\<rparr>) \<and>
   files (snd (create SignalQuality plain_env ready_world)) ''CoreMLModels/Fall_Detection.mlmodel'' =
     None"
proof -
  have a0: "fst (create Arrhythmia plain_env ready_world) =
         Returns \<lparr>core = 12, author = ''LifeLens Medical AI'',
           short_description = ''ECG Arrhythmia Detection (AFib, VTach, PVCs)'',
           version = ''1.0.0''\<rparr> \<and>
   saved (new_events ready_world (snd (create Arrhythmia plain_env ready_world))) =
         [''CoreMLModels/ECG_Arrhythmia.mlmodel''] \<and>
       stdout (snd (create Arrhythmia plain_env ready_world)) =
         [check_mark @ '' Created ECG_Arrhythmia.mlmodel'']"
    using create_produces_one_model_file [where env = plain_env and w = ready_world
        and la = "Suc 0" and lb = "Suc (Suc 0)" and lc = "Suc (Suc (Suc 0))"
        and f = Arrhythmia and k = 12
        and c = "\<lparr>core = 12, author = [], short_description = [], version = []\<rparr>",
        THEN conjunct1]
    by (simp add: plain_env_def ready_world_def empty_world_def layer_defs path_of_def
        message_of_def)
  have a1: "fst (create Troponin plain_env ready_world) =
         Returns \<lparr>core = 8, author = ''LifeLens Medical AI'',
           short_description = ''Troponin Level Detection (38ng/L sensitivity)'',
           version = ''1.0.0''\<rparr> \<and>
   saved (new_events ready_world (snd (create Troponin plain_env ready_world))) =
         [''CoreMLModels/Troponin_Detection.mlmodel''] \<and>
       stdout (snd (create Troponin plain_env ready_world)) =
         [check_mark @ '' Created Troponin_Detection.mlmodel'']"
    using create_produces_one_model_file [where env = plain_env and w = ready_world
        and la = "Suc 0" and lb = "Suc (Suc 0)" and lc = "Suc (Suc (Suc 0))"
        and f = Troponin and k = 8
        and c = "\<lparr>core = 8, author = [], short_description = [], version = []\<rparr>",
        THEN conjunct1]
    by (simp add: plain_env_def ready_world_def empty_world_def layer_defs path_of_def
        message_of_def)
  have a2: "fst (create BloodPressure plain_env ready_world) =
         Returns \<lparr>core = 7, author = ''LifeLens Medical AI'',
           short_description = ''Blood Pressure Estimation ('' @ plus_minus @ ''5 mmHg accuracy)'',
           version = ''1.0.0''\<rparr> \<and>
   saved (new_events ready_world (snd (create BloodPressure plain_env ready_world))) =
         [''CoreMLModels/BP_Estimation.mlmodel''] \<and>
       stdout (snd (create BloodPressure plain_env ready_world)) =
         [check_mark @ '' Created BP_Estimation.mlmodel'']"
    using create_produces_one_model_file [where env = plain_env and w = ready_world
        and la = "Suc 0" and lb = "Suc (Suc 0)" and lc = "Suc (Suc (Suc 0))"
        and f = BloodPressure and k = 7
        and c = "\<lparr>core = 7, author = [], short_description = [], version = []\<rparr>",
        THEN conjunct1]
    by (simp add: plain_env_def ready_world_def empty_world_def layer_defs path_of_def
        message_of_def)
  have a3: "fst (create FallDetection plain_env ready_world) =
         Returns \<lparr>core = 7, author = ''LifeLens Medical AI'',
           short_description = ''Emergency Fall Detection'',
           version = ''1.0.0''\<rparr> \<and>
   saved (new_events ready_world (snd (create FallDetection plain_env ready_world))) =
         [''CoreMLModels/Fall_Detection.mlmodel''] \<and>
       stdout (snd (create FallDetection plain_env ready_world)) =
         [check_mark @ '' Created Fall_Detection.mlmodel'']"
    using create_produces_one_model_file [where env = plain_env and w = ready_world
        and la = "Suc 0" and lb = "Suc (Suc 0)" and lc = "Suc (Suc (Suc 0))"
        and f = FallDetection and k = 7
        and c = "\<lparr>core = 7, author = [], short_description = [], version = []\<rparr>",
        THEN conjunct1]
    by (simp add: plain_env_def ready_world_def empty_world_def layer_defs path_of_def
        message_of_def)
  have a4: "fst (create ActivityRecognition plain_env ready_world) =
         Returns \<lparr>core = 7, author = ''LifeLens Medical AI'',
           short_description = ''Activity Recognition (Exercise/Sleep/Stress)'',
           version = ''1.0.0''\<rparr> \<and>
   saved (new_events ready_world (snd (create ActivityRecognition plain_env ready_world))) =
         [''CoreMLModels/Activity_Recognition.mlmodel''] \<and>
       stdout (snd (create ActivityRecognition plain_env ready_world)) =
         [check_mark @ '' Created Activity_Recognition.mlmodel'']"
    using create_produces_one_model_file [where env = plain_env and w = ready_world
        and la = "Suc 0" and lb = "Suc (Suc 0)" and lc = "Suc (Suc (Suc 0))"
        and f = ActivityRecognition and k = 7
        and c = "\<lparr>core = 7, author = [], short_description = [], version = []\<rparr>",
        THEN conjunct1]
    by (simp add: plain_env_def ready_world_def empty_world_def layer_defs path_of_def
        message_of_def)
  have a5: "fst (create SignalQuality plain_env ready_world) =
         Returns \<lparr>core = 5, author = ''LifeLens Medical AI'',
           short_description = ''Signal Quality Assessment'',
           version = ''1.0.0''\<rparr> \<and>
   saved (new_events ready_world (snd (create SignalQuality plain_env ready_world))) =
         [''CoreMLModels/Signal_Quality.mlmodel''] \<and>
       stdout (snd (create SignalQuality plain_env ready_world)) =
         [check_mark @ '' Created Signal_Quality.mlmodel'']"
    using create_produces_one_model_file [where env = plain_env and w = ready_world
        and la = "Suc 0" and lb = "Suc (Suc 0)" and lc = "Suc (Suc (Suc 0))"
        and f = SignalQuality and k = 5
        and c = "\<lparr>core = 5, author = [], short_description = [], version = []\<rparr>",
        THEN conjunct1]
    by (simp add: plain_env_def ready_world_def empty_world_def layer_defs path_of_def
        message_of_def)
  have a6: "fst (create Glucose plain_env ready_world) =
         Returns \<lparr>core = 5, author = ''LifeLens Medical AI'',
           short_description = ''Glucose Prediction (30-min forecast)'',
           version = ''1.0.0''\<rparr> \<and>
   saved (new_events ready_world (snd (create Glucose plain_env ready_world))) =
         [''CoreMLModels/Glucose_Prediction.mlmodel''] \<and>
       stdout (snd (create Glucose plain_env ready_world)) =
         [check_mark @ '' Created Glucose_Prediction.mlmodel'']"
    using create_produces_one_model_file [where env = plain_env and w = ready_world
        and la = "Suc 0" and lb = "Suc (Suc 0)" and lc = "Suc (Suc (Suc 0))"
        and f = Glucose and k = 5
        and c = "\<lparr>core = 5, author = [], short_description = [], version = []\<rparr>",
        THEN conjunct1]
    by (simp add: plain_env_def ready_world_def empty_world_def layer_defs path_of_def
        message_of_def)
  from create_produces_one_model_file [THEN conjunct2, THEN conjunct1, THEN mp,
      OF a5 [THEN conjunct1]]
  have b: "files (snd (create SignalQuality plain_env ready_world))
        ''CoreMLModels/Signal_Quality.mlmodel'' =
      Some (ModelFile \<lparr>core = 5, author = ''LifeLens Medical AI'',
        short_description = ''Signal Quality Assessment'', version = ''1.0.0''\<rparr>)"
    and c: "files (snd (create SignalQuality plain_env ready_world))
        ''CoreMLModels/Fall_Detection.mlmodel'' = None"
    by (simp_all add: path_of_def ready_world_def empty_world_def)
  from a0 a1 a2 a3 a4 a5 a6 b c show ?thesis by simp
qed

text \<open>
  As first stated, with nothing but the file produced as output, the statement fails: the call
  of \<^verbatim>\<open>create_signal_quality_model\<close> in the plain environment returns and has written a
  line to a standard output that was empty.
\<close>

theorem create_prints_counterexample:
  "fst (create SignalQuality plain_env ready_world) =
     Returns \<lparr>core = 5, author = ''LifeLens Medical AI'',
       short_description = ''Signal Quality Assessment'', version = ''1.0.0''\<rparr> \<and>
   stdout ready_world = [] \<and>
   stdout (snd (create SignalQuality plain_env ready_world)) =
     [check_mark @ '' Created Signal_Quality.mlmodel'']"
  by (simp add: run_defs layer_defs)

text \<open>
  C8. In every run of every one of the seven functions, however it ends, each call of
  \<^verbatim>\<open>ct.convert\<close> is given the deployment target iOS15 and the compute units ALL, and each
  model given to \<^verbatim>\<open>save\<close> has the author 'LifeLens Medical AI' and the version '1.0.0' at
  that moment. A call that returns has converted once and saved once, the model it returns.
\<close>

theorem deployment_configuration:
  "set (conversions (new_events w (snd (create f env w)))) \<subseteq> {(iOS15, ComputeUnit_ALL)} \<and>
   (\<forall>m\<in>set (saved_models (new_events w (snd (create f env w)))).
      author m = ''LifeLens Medical AI'' \<and> version m = ''1.0.0'') \<and>
   (\<forall>m. fst (create f env w) = Returns m \<longrightarrow>
      conversions (new_events w (snd (create f env w))) = [(iOS15, ComputeUnit_ALL)] \<and>
      saved_models (new_events w (snd (create f env w))) = [m] \<and>
      author m = ''LifeLens Medical AI'' \<and> version m = ''1.0.0'')"
proof -
  have "conversions (new_events w (snd (create f env w))) = [(iOS15, ComputeUnit_ALL)] \<and>
      saved_models (new_events w (snd (create f env w))) = [m] \<and>
      author m = ''LifeLens Medical AI'' \<and> version m = ''1.0.0''"
    if "fst (create f env w) = Returns m" for m
  proof -
    from that have "fst (create_from f env w) = Returns m" by (simp add: create_is_create_from)
    from create_returns [OF this] show ?thesis
      by (auto simp add: create_is_create_from new_events_def)
  qed
  then show ?thesis
    using create_deployment [of w f env] by (simp add: create_is_create_from)
qed

theorem deployment_configuration_witness:
  "conversions (new_events ready_world (snd (create Glucose plain_env ready_world))) =
     [(iOS15, ComputeUnit_ALL)] \<and>
   map author (saved_models (new_events ready_world (snd (create Glucose plain_env ready_world)))) =
     [''LifeLens Medical AI''] \<and>
   map version (saved_models (new_events ready_world (snd (create Glucose plain_env ready_world)))) =
     [''1.0.0'']"
proof -
  have h: "fst (create Glucose plain_env ready_world) =
     Returns \<lparr>core = 5, author = ''LifeLens Medical AI'',
       short_description = ''Glucose Prediction (30-min forecast)'', version = ''1.0.0''\<rparr>"
    by (simp add: run_defs glucose_layers_def)
  from deployment_configuration [of ready_world Glucose plain_env] h show ?thesis
    by simp
qed

text \<open>
  C10. The line that announces success (the check mark and 'All Core ML models created
  successfully!') is printed only in a run as the main program, and only after every earlier
  call has returned: at that point the seven functions have been called and have returned,
  in order, and the seven files have been saved. A run in which one of the functions raises
  does not reach the print of that line.
\<close>

theorem summary_only_after_all_saved:
  "(new_events w (snd (script env is_main w)) = pre @ (Print summary_line, oc) # post \<longrightarrow>
      is_main \<and> (\<forall>ev\<in>set pre. snd ev = Ok) \<and>
      invoked pre = map name_of driver_order \<and>
      saved pre = map path_of driver_order \<and>
      invoked post = []) \<and>
   ((Invoke n, Err e) \<in> set (new_events w (snd (script env is_main w))) \<longrightarrow>
      (\<forall>oc'. (Print summary_line, oc') \<notin> set (new_events w (snd (script env is_main w)))))"
proof -
  have first: "is_main \<and> (\<forall>ev\<in>set pre. snd ev = Ok) \<and>
      invoked pre = map name_of driver_order \<and>
      saved pre = map path_of driver_order \<and>
      invoked post = []"
    if "new_events w (snd (script env is_main w)) = pre @ (Print summary_line, oc) # post"
    for pre oc post
  proof -
    from summary_position [OF that] have main: is_main
      and ret: "fst (run_steps (before_summary env) w) = Returns ()"
      and pre: "pre = new_events w (snd (run_steps (before_summary env) w))"
      and post: "\<forall>ev\<in>set post. \<exists>l. fst ev = Print l"
      by simp_all
    from post have "\<forall>ev\<in>set post. \<not> is_invoke (fst ev)" by auto
    then have "invoked post = []" by (rule invoked_none)
    then show ?thesis
      using main pre before_summary_all_Ok [OF ret] before_summary_invoked [OF ret]
        before_summary_saved [OF ret]
      by simp
  qed
  have second: False
    if inv: "(Invoke n, Err e) \<in> set (new_events w (snd (script env is_main w)))"
      and pr: "(Print summary_line, oc') \<in> set (new_events w (snd (script env is_main w)))"
    for oc'
  proof -
    from pr obtain pre post where
      split: "new_events w (snd (script env is_main w)) = pre @ (Print summary_line, oc') # post"
      by (auto dest: split_list)
    from first [OF split] have ok: "\<forall>ev\<in>set pre. snd ev = Ok" and none: "invoked post = []"
      by simp_all
    from inv split have "(Invoke n, Err e) \<in> set pre \<or> (Invoke n, Err e) \<in> set post"
      by auto
    then show False
    proof
      assume "(Invoke n, Err e) \<in> set pre"
      with ok show False by auto
    next
      assume "(Invoke n, Err e) \<in> set post"
      then have "n \<in> set (invoked post)" by (rule invoked_mem)
      with none show False by simp
    qed
  qed
  from first second show ?thesis by blast
qed

theorem summary_only_after_all_saved_witness:
  "new_events empty_world (snd (script plain_env True empty_world)) =
     take 52 (new_events empty_world (snd (script plain_env True empty_world))) @
     (Print summary_line, Ok) #
     drop 53 (new_events empty_world (snd (script plain_env True empty_world))) \<and>
   invoked (take 52 (new_events empty_world (snd (script plain_env True empty_world)))) =
     map name_of driver_order \<and>
   saved (take 52 (new_events empty_world (snd (script plain_env True empty_world)))) =
     map path_of driver_order \<and>
   (Invoke ''create_bp_estimation_model'', Err (OSError ''No space left on device''))
     \<in> set (new_events empty_world (snd (script full_disk_env True empty_world))) \<and>
   (Print summary_line, Ok)
     \<notin> set (new_events empty_world (snd (script full_disk_env True empty_world)))"
proof -
  have h2: "(Invoke ''create_bp_estimation_model'', Err (OSError ''No space left on device''))
     \<in> set (new_events empty_world (snd (script full_disk_env True empty_world)))"
    by (subst full_disk_run_events) simp
  from summary_only_after_all_saved [THEN conjunct1, THEN mp, OF plain_run_summary]
  have c1: "invoked (take 52 (new_events empty_world (snd (script plain_env True empty_world)))) =
      map name_of driver_order"
    and c2: "saved (take 52 (new_events empty_world (snd (script plain_env True empty_world)))) =
      map path_of driver_order"
    by simp_all
  from summary_only_after_all_saved [THEN conjunct2, THEN mp, OF h2]
  have c3: "(Print summary_line, Ok)
     \<notin> set (new_events empty_world (snd (script full_disk_env True empty_world)))"
    by simp
  from plain_run_summary c1 c2 h2 c3 show ?thesis by (intro conjI)
qed

end
